theory Spec2Isabelle
  imports Complex_Main "HOL-Library.AList" "HOL-Library.Word"
begin

unbundle bit_operations_syntax

chapter \<open>The decision core of the AI SDR platform\<close>

text \<open>
  A shallow embedding of three parts of the repository and the properties proved of them:
  the budget auction of \<open>negotiation_agent.py\<close>, the feature flags and experiment
  assignment of \<open>growthbook_mcp.py\<close>, and the event pipeline of \<open>gtm_orchestrator.py\<close>
  with its stage agents and the workspace configuration store. Each function of the
  source is a function here under the same name; an exception is a value \<open>Inl e\<close> of
  the result, mutation is a returned state, and the clock is an argument.
\<close>

section \<open>Python values\<close>

text \<open>
  The code passes untyped dictionaries (\<open>Dict[str, Any]\<close>) between its functions: event
  payloads, targeting rules, attribute mappings, decisions and actions. They are modelled
  by one datatype of JSON-like Python values. Dictionaries are association lists in
  insertion order with string keys. A \<open>str\<close> is the list of the bytes of its UTF-8
  encoding, one \<open>char\<close> per byte, so that an ASCII string is itself (a \<open>str\<close> holding a
  lone surrogate has no encoding and is outside the model); equality,
  concatenation and hashing are exact for every string, while \<open>lower\<close>, \<open>strip\<close> and
  \<open>repr\<close> are modelled for ASCII text. A \<open>float\<close> is the real number it denotes
  (infinities and NaN are outside the model), a float literal the decimal it is written
  as; the rounding of float arithmetic is a parameter, see the end of this section. Every
  exception the modelled code can raise is a value of \<open>pyerr\<close>, and a function that can
  raise returns \<open>pyerr + 'a\<close>.
\<close>

datatype pyerr =
    KeyError string
  | TypeError
  | ValueError
  | AttributeError
  | GraphRecursionError

datatype pyval =
    PNone
  | PBool bool
  | PInt int
  | PFloat real
  | PStr string
  | PList "pyval list"
  | PDict "(string \<times> pyval) list"

type_synonym pydict = "(string \<times> pyval) list"

text \<open>Truth value testing (\<open>if x\<close>, \<open>not x\<close>, \<open>x or y\<close>).\<close>

fun truthy :: "pyval \<Rightarrow> bool" where
  "truthy PNone = False"
| "truthy (PBool b) = b"
| "truthy (PInt i) = (i \<noteq> 0)"
| "truthy (PFloat r) = (r \<noteq> 0)"
| "truthy (PStr s) = (s \<noteq> [])"
| "truthy (PList xs) = (xs \<noteq> [])"
| "truthy (PDict d) = (d \<noteq> [])"

definition py_or :: "pyval \<Rightarrow> pyval \<Rightarrow> pyval" where
  "py_or a b = (if truthy a then a else b)"

text \<open>\<open>d.get(k)\<close> and \<open>d.get(k, default)\<close> on a dictionary with string keys.\<close>

definition dict_get :: "pydict \<Rightarrow> string \<Rightarrow> pyval" where
  "dict_get d k = (case map_of d k of Some v \<Rightarrow> v | None \<Rightarrow> PNone)"

definition dict_get_default :: "pydict \<Rightarrow> string \<Rightarrow> pyval \<Rightarrow> pyval" where
  "dict_get_default d k dflt = (case map_of d k of Some v \<Rightarrow> v | None \<Rightarrow> dflt)"

text \<open>Lists and dictionaries are unhashable: using one as a key or set member raises.\<close>

fun hashable :: "pyval \<Rightarrow> bool" where
  "hashable (PList xs) = False"
| "hashable (PDict d) = False"
| "hashable v = True"

text \<open>\<open>d.get(k)\<close> and \<open>k in d\<close> where the key is an arbitrary value.\<close>

definition dict_get_val :: "pydict \<Rightarrow> pyval \<Rightarrow> pyerr + pyval" where
  "dict_get_val d k =
     (if \<not> hashable k then Inl TypeError
      else case k of PStr s \<Rightarrow> Inr (dict_get d s) | _ \<Rightarrow> Inr PNone)"

definition dict_has_val :: "pydict \<Rightarrow> pyval \<Rightarrow> pyerr + bool" where
  "dict_has_val d k =
     (if \<not> hashable k then Inl TypeError
      else case k of PStr s \<Rightarrow> Inr (s \<in> fst ` set d) | _ \<Rightarrow> Inr False)"

text \<open>Membership of a value in a set literal of strings.\<close>

definition in_str_set :: "pyval \<Rightarrow> string list \<Rightarrow> pyerr + bool" where
  "in_str_set v ss =
     (if \<not> hashable v then Inl TypeError
      else case v of PStr s \<Rightarrow> Inr (s \<in> set ss) | _ \<Rightarrow> Inr False)"

subsection \<open>Strings\<close>

fun is_prefix :: "string \<Rightarrow> string \<Rightarrow> bool" where
  "is_prefix [] s = True"
| "is_prefix (c # cs) [] = False"
| "is_prefix (c # cs) (d # ds) = (c = d \<and> is_prefix cs ds)"

text \<open>\<open>sub in s\<close> for two strings.\<close>

fun str_contains :: "string \<Rightarrow> string \<Rightarrow> bool" where
  "str_contains sub [] = (sub = [])"
| "str_contains sub (c # cs) = (is_prefix sub (c # cs) \<or> str_contains sub cs)"

definition lower_char :: "char \<Rightarrow> char" where
  "lower_char c =
     (let n = (of_char c :: nat)
      in if 65 \<le> n \<and> n \<le> 90 then char_of (n + 32) else c)"

definition py_lower :: "string \<Rightarrow> string" where
  "py_lower s = map lower_char s"

definition is_space :: "char \<Rightarrow> bool" where
  "is_space c =
     (let n = (of_char c :: nat)
      in (9 \<le> n \<and> n \<le> 13) \<or> (28 \<le> n \<and> n \<le> 32))"

definition py_strip :: "string \<Rightarrow> string" where
  "py_strip s = rev (dropWhile is_space (rev (dropWhile is_space s)))"

text \<open>\<open>s.split(sep, 1)[1]\<close> for a one-character separator: the text after its first
  occurrence; IndexError cannot arise where the code has checked \<open>sep in s\<close>, and the
  model returns the empty string there.\<close>

definition after_first :: "char \<Rightarrow> string \<Rightarrow> string" where
  "after_first sep s = drop 1 (dropWhile (\<lambda>c. c \<noteq> sep) s)"

text \<open>Comparison of strings by code point.\<close>

fun str_lt :: "string \<Rightarrow> string \<Rightarrow> bool" where
  "str_lt [] [] = False"
| "str_lt [] (d # ds) = True"
| "str_lt (c # cs) [] = False"
| "str_lt (c # cs) (d # ds) =
     (if c = d then str_lt cs ds else (of_char c :: nat) < of_char d)"

subsection \<open>Conversion to text: \<open>str\<close> and \<open>repr\<close>\<close>

fun digits_of :: "nat \<Rightarrow> string" where
  "digits_of n =
     (if n < 10 then [char_of (48 + n)]
      else digits_of (n div 10) @ [char_of (48 + n mod 10)])"

definition str_of_int :: "int \<Rightarrow> string" where
  "str_of_int i = (if i < 0 then CHR ''-'' # digits_of (nat (- i)) else digits_of (nat i))"

definition hex_digit :: "nat \<Rightarrow> char" where
  "hex_digit n = (if n < 10 then char_of (48 + n) else char_of (87 + n))"

definition repr_char :: "char \<Rightarrow> char \<Rightarrow> string" where
  "repr_char quote c =
     (let n = (of_char c :: nat)
      in if c = quote \<or> c = CHR 0x5C then [CHR 0x5C, c]
         else if n = 9 then [CHR 0x5C, CHR ''t'']
         else if n = 10 then [CHR 0x5C, CHR ''n'']
         else if n = 13 then [CHR 0x5C, CHR ''r'']
         else if n < 32 \<or> n = 127
           then [CHR 0x5C, CHR ''x'', hex_digit (n div 16), hex_digit (n mod 16)]
         else [c])"

definition repr_str :: "string \<Rightarrow> string" where
  "repr_str s =
     (let quote = (if CHR 0x27 \<in> set s \<and> CHR 0x22 \<notin> set s then CHR 0x22 else CHR 0x27)
      in quote # concat (map (repr_char quote) s) @ [quote])"

fun join :: "string \<Rightarrow> string list \<Rightarrow> string" where
  "join sep [] = []"
| "join sep [x] = x"
| "join sep (x # y # ys) = x @ sep @ join sep (y # ys)"

text \<open>The shortest-round-trip text of a float is the interpreter's business; it is a
  parameter \<open>float_repr\<close> of every function that converts values to text.\<close>

fun py_repr :: "(real \<Rightarrow> string) \<Rightarrow> pyval \<Rightarrow> string" where
  "py_repr float_repr PNone = ''None''"
| "py_repr float_repr (PBool b) = (if b then ''True'' else ''False'')"
| "py_repr float_repr (PInt i) = str_of_int i"
| "py_repr float_repr (PFloat r) = float_repr r"
| "py_repr float_repr (PStr s) = repr_str s"
| "py_repr float_repr (PList xs) =
     ''['' @ join '', '' (map (py_repr float_repr) xs) @ '']''"
| "py_repr float_repr (PDict d) =
     ''{'' @ join '', '' (map (\<lambda>(k, v). repr_str k @ '': '' @ py_repr float_repr v) d) @ ''}''"

definition py_str :: "(real \<Rightarrow> string) \<Rightarrow> pyval \<Rightarrow> string" where
  "py_str float_repr v = (case v of PStr s \<Rightarrow> s | _ \<Rightarrow> py_repr float_repr v)"

subsection \<open>Conversion to int\<close>

definition is_digit :: "char \<Rightarrow> bool" where
  "is_digit c = (let n = (of_char c :: nat) in 48 \<le> n \<and> n \<le> 57)"

definition digit_val :: "char \<Rightarrow> nat" where
  "digit_val c = of_char c - 48"

text \<open>Digits after a first digit; a single underscore may separate two digits.\<close>

fun parse_digits :: "string \<Rightarrow> nat \<Rightarrow> nat option" where
  "parse_digits [] acc = Some acc"
| "parse_digits [c] acc = (if is_digit c then Some (10 * acc + digit_val c) else None)"
| "parse_digits (c # d # ds) acc =
     (if is_digit c then parse_digits (d # ds) (10 * acc + digit_val c)
      else if c = CHR ''_'' \<and> is_digit d then parse_digits ds (10 * acc + digit_val d)
      else None)"

definition parse_nat :: "string \<Rightarrow> nat option" where
  "parse_nat s =
     (case s of [] \<Rightarrow> None
      | c # cs \<Rightarrow> if is_digit c then parse_digits cs (digit_val c) else None)"

definition parse_int :: "string \<Rightarrow> int option" where
  "parse_int s =
     (case py_strip s of
        [] \<Rightarrow> None
      | c # cs \<Rightarrow>
          if c = CHR ''-'' then map_option (\<lambda>n. - int n) (parse_nat cs)
          else if c = CHR ''+'' then map_option int (parse_nat cs)
          else map_option int (parse_nat (c # cs)))"

text \<open>\<open>int(x)\<close>: truncation toward zero for floats, parsing for strings. The
  interpreter's configurable limit on the number of digits of a string is not modelled.\<close>

fun py_int :: "pyval \<Rightarrow> pyerr + int" where
  "py_int (PBool b) = Inr (if b then 1 else 0)"
| "py_int (PInt i) = Inr i"
| "py_int (PFloat r) = Inr (if 0 \<le> r then \<lfloor>r\<rfloor> else \<lceil>r\<rceil>)"
| "py_int (PStr s) = (case parse_int s of Some i \<Rightarrow> Inr i | None \<Rightarrow> Inl ValueError)"
| "py_int v = Inl TypeError"

subsection \<open>Equality, ordering and membership\<close>

fun num_of :: "pyval \<Rightarrow> real option" where
  "num_of (PBool b) = Some (if b then 1 else 0)"
| "num_of (PInt i) = Some (of_int i)"
| "num_of (PFloat r) = Some r"
| "num_of v = None"

text \<open>\<open>a == b\<close>: numbers (booleans included) compare by value, lists element by element,
  dictionaries as unordered mappings.\<close>

fun py_eq :: "pyval \<Rightarrow> pyval \<Rightarrow> bool" where
  "py_eq PNone b = (b = PNone)"
| "py_eq (PStr s) b = (b = PStr s)"
| "py_eq (PList xs) b = (case b of PList ys \<Rightarrow> list_all2 py_eq xs ys | _ \<Rightarrow> False)"
| "py_eq (PDict d) b =
     (case b of
        PDict e \<Rightarrow>
          length d = length e \<and>
          list_all (\<lambda>(k, v). case map_of e k of Some w \<Rightarrow> py_eq v w | None \<Rightarrow> False) d
      | _ \<Rightarrow> False)"
| "py_eq a b =
     (case (num_of a, num_of b) of (Some x, Some y) \<Rightarrow> x = y | _ \<Rightarrow> False)"

text \<open>\<open>a < b\<close> and \<open>a > b\<close>: defined between two numbers, two strings or two lists
  (lexicographically, on the first pair of unequal elements); TypeError otherwise.\<close>

fun py_lt :: "pyval \<Rightarrow> pyval \<Rightarrow> pyerr + bool"
  and list_lt :: "pyval list \<Rightarrow> pyval list \<Rightarrow> pyerr + bool" where
  "py_lt (PStr s) b = (case b of PStr t \<Rightarrow> Inr (str_lt s t) | _ \<Rightarrow> Inl TypeError)"
| "py_lt (PList xs) b = (case b of PList ys \<Rightarrow> list_lt xs ys | _ \<Rightarrow> Inl TypeError)"
| "py_lt a b =
     (case (num_of a, num_of b) of (Some x, Some y) \<Rightarrow> Inr (x < y) | _ \<Rightarrow> Inl TypeError)"
| "list_lt [] [] = Inr False"
| "list_lt [] (y # ys) = Inr True"
| "list_lt (x # xs) [] = Inr False"
| "list_lt (x # xs) (y # ys) = (if py_eq x y then list_lt xs ys else py_lt x y)"

fun py_gt :: "pyval \<Rightarrow> pyval \<Rightarrow> pyerr + bool"
  and list_gt :: "pyval list \<Rightarrow> pyval list \<Rightarrow> pyerr + bool" where
  "py_gt (PStr s) b = (case b of PStr t \<Rightarrow> Inr (str_lt t s) | _ \<Rightarrow> Inl TypeError)"
| "py_gt (PList xs) b = (case b of PList ys \<Rightarrow> list_gt xs ys | _ \<Rightarrow> Inl TypeError)"
| "py_gt a b =
     (case (num_of a, num_of b) of (Some x, Some y) \<Rightarrow> Inr (y < x) | _ \<Rightarrow> Inl TypeError)"
| "list_gt [] [] = Inr False"
| "list_gt [] (y # ys) = Inr False"
| "list_gt (x # xs) [] = Inr True"
| "list_gt (x # xs) (y # ys) = (if py_eq x y then list_gt xs ys else py_gt x y)"

text \<open>\<open>x in c\<close>: substring test in a string, element test in a list, key test in a
  dictionary; TypeError for any other container.\<close>

fun py_in :: "pyval \<Rightarrow> pyval \<Rightarrow> pyerr + bool" where
  "py_in x (PStr s) = (case x of PStr t \<Rightarrow> Inr (str_contains t s) | _ \<Rightarrow> Inl TypeError)"
| "py_in x (PList ys) = Inr (list_ex (py_eq x) ys)"
| "py_in x (PDict d) = dict_has_val d x"
| "py_in x c = Inl TypeError"

subsection \<open>Floating-point arithmetic\<close>

text \<open>
  An arithmetic operation on floats returns the exact result rounded to a float. Which
  float that is, is the machine's business: the rounding function \<open>rnd\<close> is a parameter of
  every function that computes with floats, and nothing is assumed of it, so that what
  is proved holds for the rounding the machine does. Two facts of float arithmetic are
  built in: zero is a float, and adding zero to a float is exact. Comparisons of floats,
  and of a float with an integer, are exact.
\<close>

definition fl :: "(real \<Rightarrow> real) \<Rightarrow> real \<Rightarrow> real" where
  "fl rnd x = (if x = 0 then 0 else rnd x)"

definition float_add :: "(real \<Rightarrow> real) \<Rightarrow> real \<Rightarrow> real \<Rightarrow> real" where
  "float_add rnd x y = (if x = 0 then y else if y = 0 then x else fl rnd (x + y))"

definition float_mul :: "(real \<Rightarrow> real) \<Rightarrow> real \<Rightarrow> real \<Rightarrow> real" where
  "float_mul rnd x y = fl rnd (x * y)"

definition float_div :: "(real \<Rightarrow> real) \<Rightarrow> real \<Rightarrow> real \<Rightarrow> real" where
  "float_div rnd x y = fl rnd (x / y)"

text \<open>\<open>a + b\<close> where \<open>a\<close> is a number: integers (booleans included) add exactly, a
  float operand makes the sum a float, and any other operand raises TypeError. An
  integer operand of a float sum is taken to convert to a float exactly.\<close>

fun int_of :: "pyval \<Rightarrow> int option" where
  "int_of (PBool b) = Some (if b then 1 else 0)"
| "int_of (PInt i) = Some i"
| "int_of v = None"

definition py_add :: "(real \<Rightarrow> real) \<Rightarrow> pyval \<Rightarrow> pyval \<Rightarrow> pyerr + pyval" where
  "py_add rnd a b =
     (case (int_of a, int_of b) of
        (Some i, Some j) \<Rightarrow> Inr (PInt (i + j))
      | _ \<Rightarrow>
          (case (num_of a, num_of b) of
             (Some x, Some y) \<Rightarrow> Inr (PFloat (float_add rnd x y))
           | _ \<Rightarrow> Inl TypeError))"


section \<open>Resource auction (negotiation\_agent.py)\<close>

text \<open>
  Bids and the budget are floats, and the auction adds and divides them in float
  arithmetic, with the rounding \<open>rnd\<close> of the machine. A \<open>Dict[str, float]\<close> is an
  association list in insertion order, its keys distinct as in every Python dictionary.
  The \<open>rationale\<close> text interpolates the number of selected agents and the budget; the
  model keeps the two interpolated values.
\<close>

record NegotiationRequest =
  lead_id :: string
  agent_bids :: "(string \<times> real) list"
  quality_scores :: "(string \<times> int) list"
  budget_limit :: real

record NegotiationResponse =
  consensus_reached :: bool
  selected_agents :: "string list"
  total_cost :: real
  rationale :: "nat \<times> real"

text \<open>\<open>round(x, ndigits)\<close> on a float: the exact value of \<open>x\<close> is rounded to the nearest
  multiple of \<open>10 ^ - ndigits\<close>, a tie going to the even neighbour (\<open>decimal_round\<close>), and
  the float nearest to that decimal is returned.\<close>

definition round_half_even :: "real \<Rightarrow> int" where
  "round_half_even y =
     (let f = \<lfloor>y\<rfloor>; d = y - of_int f
      in if d < 1 / 2 then f else if 1 / 2 < d then f + 1
         else if even f then f else f + 1)"

definition decimal_round :: "real \<Rightarrow> nat \<Rightarrow> real" where
  "decimal_round x ndigits = of_int (round_half_even (x * 10 ^ ndigits)) / 10 ^ ndigits"

definition py_round :: "(real \<Rightarrow> real) \<Rightarrow> real \<Rightarrow> nat \<Rightarrow> real" where
  "py_round rnd x ndigits = fl rnd (decimal_round x ndigits)"

text \<open>The value ratio of one agent: \<open>quality / bid\<close>, or the quality itself for a bid
  that is not positive; an agent without a quality score has quality 50.\<close>

definition value_ratio ::
  "(real \<Rightarrow> real) \<Rightarrow> (string \<times> int) list \<Rightarrow> string \<Rightarrow> real \<Rightarrow> real" where
  "value_ratio rnd qs agent bid =
     (let quality = (case map_of qs agent of Some q \<Rightarrow> q | None \<Rightarrow> 50)
      in if 0 < bid then float_div rnd (of_int quality) bid else of_int quality)"

text \<open>The selection loop over the sorted agents, with the accumulators \<open>selected\<close> and
  \<open>total_cost\<close> (here \<open>tc\<close>); \<open>request.agent_bids[agent]\<close> raises KeyError on a missing
  key.\<close>

fun select_agents ::
  "(real \<Rightarrow> real) \<Rightarrow> (string \<times> real) list \<Rightarrow> real \<Rightarrow> (string \<times> real) list
     \<Rightarrow> string list \<Rightarrow> real \<Rightarrow> pyerr + (string list \<times> real)" where
  "select_agents rnd bids budget [] selected tc = Inr (selected, tc)"
| "select_agents rnd bids budget ((agent, ratio) # rest) selected tc =
     (case map_of bids agent of
        None \<Rightarrow> Inl (KeyError agent)
      | Some agent_cost \<Rightarrow>
          if float_add rnd tc agent_cost \<le> budget
          then select_agents rnd bids budget rest (selected @ [agent])
                 (float_add rnd tc agent_cost)
          else select_agents rnd bids budget rest selected tc)"

text \<open>\<open>sorted(..., key=lambda x: x[1], reverse=True)\<close> is a stable sort by descending
  ratio: agents of equal ratio keep their order, as \<open>sort_key\<close> on the negated ratio
  does.\<close>

definition run_auction ::
  "(real \<Rightarrow> real) \<Rightarrow> NegotiationRequest \<Rightarrow> pyerr + NegotiationResponse" where
  "run_auction rnd request =
     (let value_ratios =
            map (\<lambda>(agent, bid). (agent, value_ratio rnd (quality_scores request) agent bid))
              (agent_bids request);
          sorted_agents = sort_key (\<lambda>x. - snd x) value_ratios
      in case select_agents rnd (agent_bids request) (budget_limit request) sorted_agents
                [] 0 of
           Inl e \<Rightarrow> Inl e
         | Inr (selected, tc) \<Rightarrow>
             Inr \<lparr>consensus_reached = (2 \<le> length selected),
                  selected_agents = selected,
                  total_cost = py_round rnd tc 4,
                  rationale = (length selected, budget_limit request)\<rparr>)"

text \<open>The cost the loop has accumulated when it has accepted the agents \<open>sel\<close>, in
  this order: their bids, added one after the other in float arithmetic.\<close>

definition accumulated_cost ::
  "(real \<Rightarrow> real) \<Rightarrow> (string \<times> real) list \<Rightarrow> string list \<Rightarrow> real" where
  "accumulated_cost rnd bids sel =
     foldl (\<lambda>tc a. float_add rnd tc (case map_of bids a of Some c \<Rightarrow> c | None \<Rightarrow> 0)) 0 sel"


section \<open>MD5 (hashlib.md5), for the experiment bucket\<close>

text \<open>
  \<open>get_experiment_variant\<close> derives its bucket from
  \<open>int(hashlib.md5(s.encode()).hexdigest(), 16)\<close>. The digest is the MD5 of RFC 1321 over
  the UTF-8 bytes of the string, which are the characters of its model, read as one
  big-endian 128-bit number.
\<close>

definition md5_K :: "32 word list" where
  "md5_K =
     [0xd76aa478, 0xe8c7b756, 0x242070db, 0xc1bdceee,
      0xf57c0faf, 0x4787c62a, 0xa8304613, 0xfd469501,
      0x698098d8, 0x8b44f7af, 0xffff5bb1, 0x895cd7be,
      0x6b901122, 0xfd987193, 0xa679438e, 0x49b40821,
      0xf61e2562, 0xc040b340, 0x265e5a51, 0xe9b6c7aa,
      0xd62f105d, 0x02441453, 0xd8a1e681, 0xe7d3fbc8,
      0x21e1cde6, 0xc33707d6, 0xf4d50d87, 0x455a14ed,
      0xa9e3e905, 0xfcefa3f8, 0x676f02d9, 0x8d2a4c8a,
      0xfffa3942, 0x8771f681, 0x6d9d6122, 0xfde5380c,
      0xa4beea44, 0x4bdecfa9, 0xf6bb4b60, 0xbebfbc70,
      0x289b7ec6, 0xeaa127fa, 0xd4ef3085, 0x04881d05,
      0xd9d4d039, 0xe6db99e5, 0x1fa27cf8, 0xc4ac5665,
      0xf4292244, 0x432aff97, 0xab9423a7, 0xfc93a039,
      0x655b59c3, 0x8f0ccc92, 0xffeff47d, 0x85845dd1,
      0x6fa87e4f, 0xfe2ce6e0, 0xa3014314, 0x4e0811a1,
      0xf7537e82, 0xbd3af235, 0x2ad7d2bb, 0xeb86d391]"

definition md5_s :: "nat list" where
  "md5_s =
     [7, 12, 17, 22, 7, 12, 17, 22, 7, 12, 17, 22, 7, 12, 17, 22,
      5, 9, 14, 20, 5, 9, 14, 20, 5, 9, 14, 20, 5, 9, 14, 20,
      4, 11, 16, 23, 4, 11, 16, 23, 4, 11, 16, 23, 4, 11, 16, 23,
      6, 10, 15, 21, 6, 10, 15, 21, 6, 10, 15, 21, 6, 10, 15, 21]"

definition rotl32 :: "nat \<Rightarrow> 32 word \<Rightarrow> 32 word" where
  "rotl32 n x = push_bit n x OR drop_bit (32 - n) x"

definition md5_step :: "32 word list \<Rightarrow> nat \<Rightarrow> 32 word \<times> 32 word \<times> 32 word \<times> 32 word
    \<Rightarrow> 32 word \<times> 32 word \<times> 32 word \<times> 32 word" where
  "md5_step m i st =
     (case st of (a, b, c, d) \<Rightarrow>
        let (f, g) =
              (if i < 16 then ((b AND c) OR (NOT b AND d), i)
               else if i < 32 then ((d AND b) OR (NOT d AND c), (5 * i + 1) mod 16)
               else if i < 48 then (b XOR c XOR d, (3 * i + 5) mod 16)
               else (c XOR (b OR NOT d), (7 * i) mod 16));
            f' = f + a + md5_K ! i + m ! g
        in (d, b + rotl32 (md5_s ! i) f', b, c))"

definition md5_block :: "32 word \<times> 32 word \<times> 32 word \<times> 32 word \<Rightarrow> 32 word list
    \<Rightarrow> 32 word \<times> 32 word \<times> 32 word \<times> 32 word" where
  "md5_block st m =
     (case (st, fold (md5_step m) [0..<64] st) of
        ((a0, b0, c0, d0), (a, b, c, d)) \<Rightarrow> (a0 + a, b0 + b, c0 + c, d0 + d))"

definition le_bytes :: "nat \<Rightarrow> nat \<Rightarrow> nat list" where
  "le_bytes n v = map (\<lambda>i. (v div 256 ^ i) mod 256) [0..<n]"

definition md5_pad :: "nat list \<Rightarrow> nat list" where
  "md5_pad bs =
     bs @ [128] @ replicate ((64 - (length bs + 9) mod 64) mod 64) 0
        @ le_bytes 8 (8 * length bs)"

fun le_words :: "nat list \<Rightarrow> 32 word list" where
  "le_words (b0 # b1 # b2 # b3 # bs) =
     of_nat (b0 + 256 * b1 + 65536 * b2 + 16777216 * b3) # le_words bs"
| "le_words bs = []"

definition md5_blocks :: "32 word \<times> 32 word \<times> 32 word \<times> 32 word \<Rightarrow> 32 word list
    \<Rightarrow> 32 word \<times> 32 word \<times> 32 word \<times> 32 word" where
  "md5_blocks st ws =
     fold (\<lambda>i st. md5_block st (take 16 (drop (16 * i) ws))) [0..<length ws div 16] st"

definition md5_digest :: "string \<Rightarrow> nat list" where
  "md5_digest s =
     (case md5_blocks (0x67452301, 0xefcdab89, 0x98badcfe, 0x10325476)
             (le_words (md5_pad (map of_char s))) of
        (a, b, c, d) \<Rightarrow> concat (map (\<lambda>w. le_bytes 4 (unat w)) [a, b, c, d]))"

definition md5_int :: "string \<Rightarrow> nat" where
  "md5_int s = foldl (\<lambda>acc b. 256 * acc + b) 0 (md5_digest s)"


section \<open>Feature flags and experiments (growthbook\_mcp.py)\<close>

text \<open>
  A \<open>datetime\<close> is a number of microseconds since the epoch, and the \<open>days\<close> attribute of
  a difference of two datetimes is its floor division by the microseconds of a day. Each
  function that reads the clock (\<open>datetime.utcnow()\<close>) takes the current time \<open>now\<close> as
  an argument.
\<close>

type_synonym datetime = int

definition timedelta_days :: "int \<Rightarrow> int" where
  "timedelta_days delta = delta div 86400000000"

datatype FeatureStatus = ACTIVE | STALE | PERMANENT | FEATURE_DRAFT

datatype ExperimentStatus = DRAFT | RUNNING | STOPPED | ARCHIVED

record FeatureFlag =
  key :: string
  description :: string
  enabled :: bool
  default_value :: pyval
  rules :: "pydict list"
  status :: FeatureStatus
  environment :: string
  created_at :: datetime
  updated_at :: datetime
  last_evaluated :: "datetime option"

record Experiment =
  exp_key :: string
  exp_name :: string
  hypothesis :: string
  exp_status :: ExperimentStatus
  variations :: "pydict list"
  weights :: "pyval list"
  metrics :: "string list"
  targeting_rules :: "pydict list"
  traffic_percent :: real
  exp_created_at :: datetime
  started_at :: "datetime option"
  ended_at :: "datetime option"

record DynamicConfig =
  config_key :: string
  config_description :: string
  config_value :: pydict
  config_rules :: "pydict list"
  config_environment :: string
  config_created_at :: datetime
  config_updated_at :: datetime

text \<open>One entry of the evaluation log written by \<open>_log_evaluation\<close>.\<close>

record evaluation =
  log_timestamp :: datetime
  feature_key :: string
  logged_value :: pyval
  logged_attributes :: "pydict option"

text \<open>The state of a \<open>GrowthBookClient\<close>: the mode and the in-memory registries, each a
  dictionary in insertion order.\<close>

record GrowthBookClient =
  local_mode :: bool
  features :: "(string \<times> FeatureFlag) list"
  experiments :: "(string \<times> Experiment) list"
  configs :: "(string \<times> DynamicConfig) list"
  evaluation_log :: "evaluation list"

text \<open>\<open>FeatureFlag.is_stale\<close>.\<close>

definition is_stale :: "datetime \<Rightarrow> FeatureFlag \<Rightarrow> int \<Rightarrow> bool" where
  "is_stale now f days =
     (case last_evaluated f of
        None \<Rightarrow> True
      | Some t \<Rightarrow> days < timedelta_days (now - t))"

text \<open>\<open>get_stale_flags\<close>: the stale flags in registry order. The source returns each as
  the dictionary built by \<open>_feature_to_dict\<close>; the model returns the flag itself.\<close>

definition get_stale_flags :: "datetime \<Rightarrow> GrowthBookClient \<Rightarrow> int \<Rightarrow> FeatureFlag list" where
  "get_stale_flags now c days =
     (if local_mode c then filter (\<lambda>f. is_stale now f days) (map snd (features c))
      else [])"

text \<open>\<open>_evaluate_rule\<close>. The condition of a rule must be a dictionary for \<open>.get\<close> to
  exist; the attribute named by the condition is looked up in the attributes, and the
  operator decides the comparison.\<close>

definition evaluate_rule :: "(real \<Rightarrow> string) \<Rightarrow> pydict \<Rightarrow> pydict \<Rightarrow> pyerr + bool" where
  "evaluate_rule float_repr rule attributes =
     (case dict_get_default rule ''condition'' (PDict []) of
        PDict condition \<Rightarrow>
          (let attr_key = dict_get condition ''attribute'';
               operator = dict_get_default condition ''operator'' (PStr ''equals'');
               target_value = dict_get condition ''value''
           in if \<not> truthy attr_key then Inr False
              else case dict_has_val attributes attr_key of
                     Inl e \<Rightarrow> Inl e
                   | Inr False \<Rightarrow> Inr False
                   | Inr True \<Rightarrow>
                       (case dict_get_val attributes attr_key of
                          Inl e \<Rightarrow> Inl e
                        | Inr attr_value \<Rightarrow>
                            if operator = PStr ''equals''
                              then Inr (py_eq attr_value target_value)
                            else if operator = PStr ''not_equals''
                              then Inr (\<not> py_eq attr_value target_value)
                            else if operator = PStr ''contains''
                              then py_in target_value (PStr (py_str float_repr attr_value))
                            else if operator = PStr ''greater_than''
                              then py_gt attr_value target_value
                            else if operator = PStr ''less_than''
                              then py_lt attr_value target_value
                            else if operator = PStr ''in''
                              then py_in attr_value target_value
                            else Inr False))
      | _ \<Rightarrow> Inl AttributeError)"

text \<open>The loop of \<open>is_on\<close> over the rules: the value of the first rule that evaluates to
  true (the flag's \<open>enabled\<close> when the rule has no \<open>value\<close>), \<open>None\<close> when the loop ends
  without a match; an exception raised by a rule leaves the loop.\<close>

fun first_matching_rule ::
  "(real \<Rightarrow> string) \<Rightarrow> pydict list \<Rightarrow> pydict \<Rightarrow> bool \<Rightarrow> pyerr + pyval option" where
  "first_matching_rule float_repr [] attributes en = Inr None"
| "first_matching_rule float_repr (rule # rest) attributes en =
     (case evaluate_rule float_repr rule attributes of
        Inl e \<Rightarrow> Inl e
      | Inr True \<Rightarrow> Inr (Some (dict_get_default rule ''value'' (PBool en)))
      | Inr False \<Rightarrow> first_matching_rule float_repr rest attributes en)"

text \<open>\<open>_log_evaluation\<close>.\<close>

definition log_evaluation ::
  "datetime \<Rightarrow> GrowthBookClient \<Rightarrow> string \<Rightarrow> pyval \<Rightarrow> pydict option \<Rightarrow> GrowthBookClient" where
  "log_evaluation now c k v attributes =
     c\<lparr>evaluation_log := evaluation_log c @
          [\<lparr>log_timestamp = now, feature_key = k, logged_value = v,
            logged_attributes = attributes\<rparr>]\<rparr>"

text \<open>\<open>is_on\<close>: the result (or the exception) and the client afterwards. The writes to
  \<open>last_evaluated\<close> and to the log precede the rules, so they persist when a rule raises.\<close>

definition is_on ::
  "(real \<Rightarrow> string) \<Rightarrow> datetime \<Rightarrow> GrowthBookClient \<Rightarrow> string \<Rightarrow> pydict option
     \<Rightarrow> (pyerr + pyval) \<times> GrowthBookClient" where
  "is_on float_repr now c k attributes =
     (if local_mode c then
        (case map_of (features c) k of
           None \<Rightarrow> (Inr (PBool False), c)
         | Some feature \<Rightarrow>
             (let c1 = c\<lparr>features :=
                         AList.update k (feature\<lparr>last_evaluated := Some now\<rparr>) (features c)\<rparr>;
                  c2 = log_evaluation now c1 k (PBool (enabled feature)) attributes
              in case attributes of
                   None \<Rightarrow> (Inr (PBool (enabled feature)), c2)
                 | Some attrs \<Rightarrow>
                     if rules feature \<noteq> [] \<and> attrs \<noteq> [] then
                       (case first_matching_rule float_repr (rules feature) attrs
                               (enabled feature) of
                          Inl e \<Rightarrow> (Inl e, c2)
                        | Inr (Some v) \<Rightarrow> (Inr v, c2)
                        | Inr None \<Rightarrow> (Inr (PBool (enabled feature)), c2))
                     else (Inr (PBool (enabled feature)), c2)))
      else (Inr (PBool False), c))"

text \<open>The loop of \<open>get_experiment_variant\<close> over the variations, with the accumulator
  \<open>cumulative\<close>: the \<open>key\<close> entry of the first variation at which the normalized bucket
  is below the cumulative weight, \<open>None\<close> when the loop ends without returning. The
  weights are added as Python adds numbers, and a weight that is not a number makes the
  addition raise TypeError.\<close>

fun assign_variation ::
  "(real \<Rightarrow> real) \<Rightarrow> pydict list \<Rightarrow> pyval \<Rightarrow> real \<Rightarrow> pyerr + pyval option" where
  "assign_variation rnd [] cumulative normalized_bucket = Inr None"
| "assign_variation rnd (variation # rest) cumulative normalized_bucket =
     (case py_add rnd cumulative (dict_get_default variation ''weight'' (PInt 50)) of
        Inl e \<Rightarrow> Inl e
      | Inr cumulative' \<Rightarrow>
          (case py_lt (PFloat normalized_bucket) cumulative' of
             Inl e \<Rightarrow> Inl e
           | Inr True \<Rightarrow> Inr (Some (dict_get variation ''key''))
           | Inr False \<Rightarrow> assign_variation rnd rest cumulative' normalized_bucket))"

text \<open>The bucket: the MD5 digest of the UTF-8 bytes of \<open>f"{key}:{user_id}"\<close>, as a
  number, modulo 100.\<close>

definition experiment_bucket :: "string \<Rightarrow> string \<Rightarrow> nat" where
  "experiment_bucket k user_id = md5_int (k @ '':'' @ user_id) mod 100"

text \<open>\<open>get_experiment_variant\<close>; \<open>PNone\<close> is the null result. The normalized bucket
  \<open>(bucket / traffic_percent) * 100\<close> is a float division followed by a float
  multiplication. The method reads the registry and writes nothing.\<close>

definition get_experiment_variant ::
  "(real \<Rightarrow> real) \<Rightarrow> GrowthBookClient \<Rightarrow> string \<Rightarrow> string \<Rightarrow> pydict option
     \<Rightarrow> pyerr + pyval" where
  "get_experiment_variant rnd c k user_id attributes =
     (if local_mode c then
        (case map_of (experiments c) k of
           None \<Rightarrow> Inr PNone
         | Some ex \<Rightarrow>
             if exp_status ex \<noteq> RUNNING then Inr PNone
             else
               (let bucket = experiment_bucket k user_id
                in if traffic_percent ex \<le> real bucket then Inr PNone
                   else
                     (let normalized_bucket =
                            float_mul rnd (float_div rnd (real bucket) (traffic_percent ex)) 100
                      in case assign_variation rnd (variations ex) (PInt 0)
                                normalized_bucket of
                           Inl e \<Rightarrow> Inl e
                         | Inr (Some v) \<Rightarrow> Inr v
                         | Inr None \<Rightarrow>
                             Inr (if variations ex \<noteq> []
                                  then dict_get (last (variations ex)) ''key''
                                  else PNone))))
      else Inr PNone)"

text \<open>The constructor in local mode registers the default flags of
  \<open>_init_default_features\<close> (and its default configs), none of them evaluated yet; in
  API mode the registries start empty.\<close>

definition default_feature :: "datetime \<Rightarrow> string \<Rightarrow> string \<Rightarrow> bool \<Rightarrow> string \<times> FeatureFlag" where
  "default_feature now k d en =
     (k, \<lparr>key = k, description = d, enabled = en, default_value = PBool en, rules = [],
          status = ACTIVE, environment = ''production'', created_at = now,
          updated_at = now, last_evaluated = None\<rparr>)"

definition default_config :: "datetime \<Rightarrow> string \<Rightarrow> string \<Rightarrow> pydict \<Rightarrow> string \<times> DynamicConfig" where
  "default_config now k d v =
     (k, \<lparr>config_key = k, config_description = d, config_value = v, config_rules = [],
          config_environment = ''production'', config_created_at = now,
          config_updated_at = now\<rparr>)"

definition init_default_features :: "datetime \<Rightarrow> GrowthBookClient \<Rightarrow> GrowthBookClient" where
  "init_default_features now c =
     c\<lparr>features :=
          [default_feature now ''enable_research_agent'' ''Enable/disable Research Agent'' True,
           default_feature now ''enable_copywriting_agent''
             ''Enable/disable Copywriting Agent'' True,
           default_feature now ''enable_qualifier_agent'' ''Enable/disable Qualifier Agent'' True,
           default_feature now ''enable_timing_agent''
             ''Enable/disable Timing Optimizer Agent'' True,
           default_feature now ''enable_negotiation_agent''
             ''Enable/disable Negotiation Agent (uAgents)'' True,
           default_feature now ''enable_approval_agent'' ''Enable/disable Approval Agent'' True,
           default_feature now ''enable_x402_payments''
             ''Enable x402 stablecoin payments'' False],
        configs :=
          [default_config now ''lead_qualification_config''
             ''Lead scoring thresholds and parameters''
             [(''min_qualification_score'', PInt 60), (''auto_approve_threshold'', PInt 90),
              (''research_quality_threshold'', PInt 70), (''max_cost_per_lead'', PFloat (1 / 4))],
           default_config now ''negotiation_parameters'' ''Agent negotiation settings''
             [(''max_discount_percent'', PInt 15), (''min_agents_for_consensus'', PInt 2),
              (''budget_allocation_strategy'', PStr ''quality_weighted'')],
           default_config now ''email_generation_config'' ''Email copywriting parameters''
             [(''variants_count'', PInt 3), (''max_subject_length'', PInt 60),
              (''max_body_length'', PInt 200), (''tone'', PStr ''professional''),
              (''include_personalization'', PBool True)]]\<rparr>"

definition new_client :: "datetime \<Rightarrow> bool \<Rightarrow> GrowthBookClient" where
  "new_client now lm =
     (let c = \<lparr>local_mode = lm, features = [], experiments = [], configs = [],
               evaluation_log = []\<rparr>
      in if lm then init_default_features now c else c)"

text \<open>\<open>create_feature_flag\<close>, \<open>create_experiment\<close> and \<open>start_experiment\<close> in local mode
  (in API mode they call the remote service and leave the registries alone).\<close>

definition create_feature_flag ::
  "datetime \<Rightarrow> GrowthBookClient \<Rightarrow> string \<Rightarrow> string \<Rightarrow> bool \<Rightarrow> pyval \<Rightarrow> pydict list
     \<Rightarrow> GrowthBookClient" where
  "create_feature_flag now c k d en dv rs =
     c\<lparr>features := AList.update k
          \<lparr>key = k, description = d, enabled = en, default_value = dv, rules = rs,
           status = ACTIVE, environment = ''production'', created_at = now,
           updated_at = now, last_evaluated = None\<rparr> (features c)\<rparr>"

definition default_variations :: "pydict list" where
  "default_variations =
     [[(''key'', PStr ''control''), (''name'', PStr ''Control''), (''weight'', PInt 50)],
      [(''key'', PStr ''treatment''), (''name'', PStr ''Treatment''), (''weight'', PInt 50)]]"

definition create_experiment ::
  "datetime \<Rightarrow> GrowthBookClient \<Rightarrow> string \<Rightarrow> string \<Rightarrow> pydict list \<Rightarrow> real \<Rightarrow> GrowthBookClient" where
  "create_experiment now c k n vs tp =
     (let vs' = (if vs = [] then default_variations else vs)
      in c\<lparr>experiments := AList.update k
            \<lparr>exp_key = k, exp_name = n, hypothesis = [], exp_status = DRAFT,
             variations = vs',
             weights = map (\<lambda>v. dict_get_default v ''weight'' (PInt 50)) vs',
             metrics = [], targeting_rules = [], traffic_percent = tp,
             exp_created_at = now, started_at = None, ended_at = None\<rparr> (experiments c)\<rparr>)"

definition start_experiment :: "datetime \<Rightarrow> GrowthBookClient \<Rightarrow> string \<Rightarrow> pyerr + GrowthBookClient" where
  "start_experiment now c k =
     (case map_of (experiments c) k of
        None \<Rightarrow> Inl ValueError
      | Some ex \<Rightarrow>
          Inr (c\<lparr>experiments := AList.update k
                 (ex\<lparr>exp_status := RUNNING, started_at := Some now\<rparr>) (experiments c)\<rparr>))"

subsection \<open>The variant assignment in the words of its description\<close>

text \<open>The weight of a variation (50 when it has none); the cumulative weight up to and
  including position \<open>i\<close>, which is the sum of the weights as Python computes it, from the
  left and starting from \<open>acc\<close>; and the assignment described as: the key of the first
  variation whose cumulative weight exceeds the normalized bucket, else the key of the
  last variation, else null. A position is decisive when the cumulative weight there
  exceeds the normalized bucket or cannot be computed, and the exception is the result
  in the latter case.\<close>

definition weight_of :: "pydict \<Rightarrow> pyval" where
  "weight_of v = dict_get_default v ''weight'' (PInt 50)"

fun py_sum :: "(real \<Rightarrow> real) \<Rightarrow> pyval \<Rightarrow> pyval list \<Rightarrow> pyerr + pyval" where
  "py_sum rnd acc [] = Inr acc"
| "py_sum rnd acc (w # ws) =
     (case py_add rnd acc w of Inl e \<Rightarrow> Inl e | Inr acc' \<Rightarrow> py_sum rnd acc' ws)"

definition cumulative_weight ::
  "(real \<Rightarrow> real) \<Rightarrow> pyval \<Rightarrow> pydict list \<Rightarrow> nat \<Rightarrow> pyerr + pyval" where
  "cumulative_weight rnd acc vs i = py_sum rnd acc (map weight_of (take (Suc i) vs))"

definition decisive :: "(real \<Rightarrow> real) \<Rightarrow> pyval \<Rightarrow> pydict list \<Rightarrow> real \<Rightarrow> nat \<Rightarrow> bool" where
  "decisive rnd acc vs normalized i =
     (case cumulative_weight rnd acc vs i of
        Inl e \<Rightarrow> True
      | Inr cw \<Rightarrow> py_lt (PFloat normalized) cw \<noteq> Inr False)"

definition decided :: "(real \<Rightarrow> real) \<Rightarrow> pyval \<Rightarrow> pydict list \<Rightarrow> real \<Rightarrow> nat \<Rightarrow> pyerr + pyval" where
  "decided rnd acc vs normalized i =
     (case cumulative_weight rnd acc vs i of
        Inl e \<Rightarrow> Inl e
      | Inr cw \<Rightarrow>
          (case py_lt (PFloat normalized) cw of
             Inl e \<Rightarrow> Inl e
           | Inr b \<Rightarrow> Inr (dict_get (vs ! i) ''key'')))"

definition described_assignment ::
  "(real \<Rightarrow> real) \<Rightarrow> pydict list \<Rightarrow> real \<Rightarrow> pyerr + pyval" where
  "described_assignment rnd vs normalized =
     (case find (decisive rnd (PInt 0) vs normalized) [0..<length vs] of
        Some i \<Rightarrow> decided rnd (PInt 0) vs normalized i
      | None \<Rightarrow> Inr (if vs = [] then PNone else dict_get (last vs) ''key''))"

text \<open>The attribute mapping that a call of \<open>is_on\<close> effectively evaluates its rules
  against: nothing when the caller passed none.\<close>

definition attrs_of :: "pydict option \<Rightarrow> pydict" where
  "attrs_of attributes = (case attributes of None \<Rightarrow> [] | Some d \<Rightarrow> d)"

subsection \<open>A flag with two targeting rules, for the worked examples\<close>

definition scoring_flag :: FeatureFlag where
  "scoring_flag =
     \<lparr>key = ''beta_scoring'', description = [], enabled = False, default_value = PNone,
      rules = [[(''condition'', PDict [(''attribute'', PStr ''plan''),
                                       (''operator'', PStr ''equals''),
                                       (''value'', PStr ''free'')]),
                (''value'', PBool False)],
               [(''condition'', PDict [(''attribute'', PStr ''seats''),
                                       (''operator'', PStr ''greater_than''),
                                       (''value'', PInt 10)]),
                (''value'', PBool True)]],
      status = ACTIVE, environment = ''production'', created_at = 0, updated_at = 0,
      last_evaluated = None\<rparr>"

definition scoring_client :: GrowthBookClient where
  "scoring_client =
     \<lparr>local_mode = True, features = [(''beta_scoring'', scoring_flag)],
      experiments = [], configs = [], evaluation_log = []\<rparr>"

subsection \<open>What a variant assignment reads, and two example clients\<close>

text \<open>The part of the registry entry of an experiment that \<open>get_experiment_variant\<close>
  reads: its status, its traffic percentage and its variations.\<close>

definition experiment_view ::
  "GrowthBookClient \<Rightarrow> string \<Rightarrow> (ExperimentStatus \<times> real \<times> pydict list) option" where
  "experiment_view c k =
     map_option (\<lambda>ex. (exp_status ex, traffic_percent ex, variations ex))
       (map_of (experiments c) k)"

text \<open>A client with one running experiment whose only variation carries no \<open>key\<close>
  entry, as \<open>create_experiment\<close> followed by \<open>start_experiment\<close> leaves it.\<close>

definition pricing_client :: GrowthBookClient where
  "pricing_client =
     (init_default_features 0
        \<lparr>local_mode = True, features = [], experiments = [], configs = [],
         evaluation_log = []\<rparr>)
     \<lparr>experiments :=
        [(''pricing_test'',
          \<lparr>exp_key = ''pricing_test'', exp_name = ''Pricing'', hypothesis = [],
           exp_status = RUNNING,
           variations = [[(''name'', PStr ''Annual''), (''weight'', PInt 100)]],
           weights = [PInt 100], metrics = [], targeting_rules = [],
           traffic_percent = 100, exp_created_at = 0, started_at = Some 5,
           ended_at = None\<rparr>)]\<rparr>"

text \<open>A client with a running experiment over the two default variations.\<close>

definition subject_line_experiment :: "real \<Rightarrow> Experiment" where
  "subject_line_experiment tp =
     \<lparr>exp_key = ''exp1'', exp_name = ''Subject line'', hypothesis = [],
      exp_status = RUNNING, variations = default_variations,
      weights = [PInt 50, PInt 50], metrics = [], targeting_rules = [],
      traffic_percent = tp, exp_created_at = 0, started_at = Some 5, ended_at = None\<rparr>"

definition subject_line_client :: "real \<Rightarrow> GrowthBookClient" where
  "subject_line_client tp =
     \<lparr>local_mode = True, features = [],
      experiments = [(''exp1'', subject_line_experiment tp)],
      configs = [], evaluation_log = []\<rparr>"


section \<open>Workspace configuration (workspace.py, config\_store.py)\<close>

datatype WorkspaceMode = notion_first | hybrid | full_crm | saas | paas

fun mode_value :: "WorkspaceMode \<Rightarrow> string" where
  "mode_value notion_first = ''notion_first''"
| "mode_value hybrid = ''hybrid''"
| "mode_value full_crm = ''full_crm''"
| "mode_value saas = ''saas''"
| "mode_value paas = ''paas''"

record WorkspaceConfig =
  cfg_workspace_id :: string
  cfg_name :: string
  mode :: WorkspaceMode
  crm_type :: "string option"
  notion_enabled :: bool
  slack_enabled :: bool
  n8n_enabled :: bool
  ids :: "(string \<times> string) list"
  field_map :: "(string \<times> string) list"
  plays_enabled :: "(string \<times> bool) list"
  thresholds :: pydict
  routing :: pydict

text \<open>The store is the parsed content of the workspaces file, as \<open>load_all\<close> returns it
  (empty when the file does not exist). \<open>JSONConfigStore.load\<close> raises KeyError for a
  workspace that is not in it. The file is taken not to change during one pipeline run.\<close>

type_synonym config_store = "(string \<times> WorkspaceConfig) list"

definition load :: "config_store \<Rightarrow> string \<Rightarrow> pyerr + WorkspaceConfig" where
  "load store ws =
     (case map_of store ws of
        None \<Rightarrow> Inl (KeyError ws)
      | Some cfg \<Rightarrow> Inr cfg)"

section \<open>The stage agents\<close>

text \<open>An action is a dictionary with the entries \<open>type\<close>, \<open>webhook\<close> and \<open>payload\<close>.\<close>

definition n8n_webhook :: "string \<Rightarrow> pydict \<Rightarrow> pyval" where
  "n8n_webhook webhook p =
     PDict [(''type'', PStr ''n8n_webhook''), (''webhook'', PStr webhook), (''payload'', PDict p)]"

text \<open>\<open>GTMEventClassifierAgent.classify\<close> (gtm\_event\_classifier.py).\<close>

definition classify :: "string \<Rightarrow> pydict \<Rightarrow> pydict" where
  "classify event_type payload =
     (let et = py_strip (py_lower event_type)
      in if str_contains ''deal'' et
            \<and> (str_contains ''stage'' et \<or> truthy (dict_get payload ''stage''))
           then [(''category'', PStr ''deal_stage_changed''), (''confidence'', PFloat (9 / 10))]
         else if str_contains ''contact'' et \<or> str_contains ''lead'' et
           then [(''category'', PStr ''lead_created_or_updated''),
                 (''confidence'', PFloat (8 / 10))]
         else if str_contains ''qa'' et
           then [(''category'', PStr ''qa_updated''), (''confidence'', PFloat (9 / 10))]
         else if str_contains ''go_live'' et \<or> str_contains ''golive'' et
                 \<or> str_contains ''go-live'' et
           then [(''category'', PStr ''go_live''), (''confidence'', PFloat (95 / 100))]
         else if str_contains ''weekly'' et \<or> str_contains ''digest'' et
           then [(''category'', PStr ''scheduled_digest''), (''confidence'', PFloat (95 / 100))]
         else if str_contains ''cleanup'' et \<or> str_contains ''hygiene'' et
           then [(''category'', PStr ''scheduled_hygiene''), (''confidence'', PFloat (9 / 10))]
         else [(''category'', PStr ''unknown''), (''confidence'', PFloat (4 / 10)),
               (''raw'', PDict [(''event_type'', PStr event_type)])])"

text \<open>\<open>SchemaDiscoveryAgent.ensure_workspace_schema\<close> (schema\_discovery\_agent.py). The
  required ids are listed in sorted order, so that the missing ones, a sublist, are in
  the order \<open>sorted(...)\<close> gives them.\<close>

definition MIN_REQUIRED_IDS :: "string list" where
  "MIN_REQUIRED_IDS =
     [''notion_accounts_db'', ''notion_contacts_db'', ''notion_deals_db'',
      ''notion_tasks_db'', ''slack_ops_channel'']"

definition ensure_workspace_schema :: "config_store \<Rightarrow> string \<Rightarrow> pyerr + pydict" where
  "ensure_workspace_schema store ws =
     (case load store ws of
        Inl e \<Rightarrow> Inl e
      | Inr cfg \<Rightarrow>
          (let missing = filter (\<lambda>i. i \<notin> fst ` set (ids cfg)) MIN_REQUIRED_IDS;
               acts = (if missing \<noteq> [] then
                         [n8n_webhook ''webhooks/provision_schema''
                            [(''workspace_id'', PStr ws),
                             (''mode'', PStr (mode_value (mode cfg))),
                             (''missing_ids'', PList (map PStr missing))]]
                       else [])
           in Inr [(''missing_ids'', PList (map PStr missing)),
                   (''actions'', PList acts),
                   (''notes'', PStr ''Provisioning runs via deterministic n8n workflow.'')]))"

text \<open>\<open>RoutingSLAAgent.evaluate\<close> (routing\_sla\_agent.py).\<close>

definition routing_evaluate ::
  "config_store \<Rightarrow> string \<Rightarrow> pydict \<Rightarrow> pydict \<Rightarrow> pyerr + pydict" where
  "routing_evaluate store ws decs payload =
     (case load store ws of
        Inl e \<Rightarrow> Inl e
      | Inr cfg \<Rightarrow>
          (case py_or (dict_get decs ''event'') (PDict []) of
             PDict ev \<Rightarrow>
               (case in_str_set (dict_get ev ''category'')
                       [''lead_created_or_updated'', ''unknown''] of
                  Inl e \<Rightarrow> Inl e
                | Inr False \<Rightarrow> Inr [(''actions'', PList [])]
                | Inr True \<Rightarrow>
                    (case py_int (py_or (dict_get payload ''icp_score'') (PInt 0)) of
                       Inl e \<Rightarrow> Inl e
                     | Inr icp_score \<Rightarrow>
                         (let owner = (if 70 \<le> icp_score
                                       then dict_get (routing cfg) ''high_fit_owner''
                                       else dict_get (routing cfg) ''default_owner'')
                          in Inr [(''actions'', PList
                               [n8n_webhook ''webhooks/route_and_sla''
                                  [(''workspace_id'', PStr ws), (''owner'', owner),
                                   (''icp_score'', PInt icp_score),
                                   (''record'', PDict payload)]])])))
           | _ \<Rightarrow> Inl AttributeError))"

text \<open>Iteration over a value (\<open>for f in required\<close>).\<close>

fun py_iter :: "pyval \<Rightarrow> pyerr + pyval list" where
  "py_iter (PList xs) = Inr xs"
| "py_iter (PStr s) = Inr (map (\<lambda>c. PStr [c]) s)"
| "py_iter (PDict d) = Inr (map (\<lambda>kv. PStr (fst kv)) d)"
| "py_iter v = Inl TypeError"

text \<open>The comprehension \<open>[f for f in required if not payload.get(f)]\<close>.\<close>

fun missing_fields :: "pydict \<Rightarrow> pyval list \<Rightarrow> pyerr + pyval list" where
  "missing_fields payload [] = Inr []"
| "missing_fields payload (f # fs) =
     (case dict_get_val payload f of
        Inl e \<Rightarrow> Inl e
      | Inr v \<Rightarrow>
          (case missing_fields payload fs of
             Inl e \<Rightarrow> Inl e
           | Inr ms \<Rightarrow> Inr (if \<not> truthy v then f # ms else ms)))"

definition default_definition_of_done :: pyval where
  "default_definition_of_done =
     PDict [(''poc'', PList [PStr ''problem'', PStr ''success_criteria'']),
            (''closed_won'', PList [PStr ''signed_date'', PStr ''amount''])]"

text \<open>\<open>LifecycleEnforcementAgent.evaluate\<close> (lifecycle\_enforcement\_agent.py).\<close>

definition lifecycle_evaluate ::
  "(real \<Rightarrow> string) \<Rightarrow> config_store \<Rightarrow> string \<Rightarrow> pydict \<Rightarrow> pyerr + pydict" where
  "lifecycle_evaluate float_repr store ws payload =
     (case load store ws of
        Inl e \<Rightarrow> Inl e
      | Inr cfg \<Rightarrow>
          (let rules_table = dict_get_default (thresholds cfg) ''definition_of_done''
                               default_definition_of_done;
               stage = py_lower (py_str float_repr
                         (py_or (py_or (dict_get payload ''stage'')
                                       (dict_get payload ''lifecycle_stage''))
                                (PStr [])))
           in case rules_table of
                PDict table \<Rightarrow>
                  (case py_iter (dict_get_default table stage (PList [])) of
                     Inl e \<Rightarrow> Inl e
                   | Inr required \<Rightarrow>
                       (case missing_fields payload required of
                          Inl e \<Rightarrow> Inl e
                        | Inr missing \<Rightarrow>
                            (let acts = (if missing \<noteq> [] then
                                   [n8n_webhook ''webhooks/lifecycle_enforce''
                                      [(''workspace_id'', PStr ws), (''stage'', PStr stage),
                                       (''missing_fields'', PList missing),
                                       (''record'', PDict payload)]]
                                 else [])
                             in Inr [(''stage'', PStr stage),
                                     (''missing_fields'', PList missing),
                                     (''actions'', PList acts)])))
              | _ \<Rightarrow> Inl AttributeError))"

text \<open>\<open>(payload.get(k) or "").strip().lower()\<close>: only a string has \<open>strip\<close>.\<close>

definition stripped_lower :: "pydict \<Rightarrow> string \<Rightarrow> pyerr + string" where
  "stripped_lower payload k =
     (case py_or (dict_get payload k) (PStr []) of
        PStr s \<Rightarrow> Inr (py_lower (py_strip s))
      | _ \<Rightarrow> Inl AttributeError)"

text \<open>\<open>DataHygieneAgent.evaluate\<close> (data\_hygiene\_agent.py).\<close>

definition hygiene_evaluate :: "string \<Rightarrow> pydict \<Rightarrow> pyerr + pydict" where
  "hygiene_evaluate ws payload =
     (case stripped_lower payload ''email'' of
        Inl e \<Rightarrow> Inl e
      | Inr email \<Rightarrow>
          (case stripped_lower payload ''domain'' of
             Inl e \<Rightarrow> Inl e
           | Inr domain \<Rightarrow>
               (let backfill =
                      (if email \<noteq> [] \<and> domain = [] \<and> str_contains ''@'' email then
                         [n8n_webhook ''webhooks/hygiene_backfill''
                            [(''workspace_id'', PStr ws),
                             (''domain'', PStr (after_first (CHR ''@'') email)),
                             (''record'', PDict payload)]]
                       else []);
                    dedupe =
                      (if truthy (dict_get payload ''suspected_duplicate'') then
                         [n8n_webhook ''webhooks/dedupe_flag''
                            [(''workspace_id'', PStr ws), (''record'', PDict payload)]]
                       else [])
                in Inr [(''actions'', PList (backfill @ dedupe))])))"

text \<open>\<open>OnboardingGoLiveAgent.evaluate\<close> (onboarding\_go\_live\_agent.py).\<close>

definition onboarding_evaluate :: "(real \<Rightarrow> string) \<Rightarrow> string \<Rightarrow> pydict \<Rightarrow> pydict" where
  "onboarding_evaluate float_repr ws payload =
     (let stage = py_lower (py_str float_repr (py_or (dict_get payload ''stage'') (PStr [])));
          tasks = (if stage \<in> set [''poc'', ''implementation'', ''onboarding''] then
                     [n8n_webhook ''webhooks/create_onboarding_tasks''
                        [(''workspace_id'', PStr ws), (''record'', PDict payload)]]
                   else []);
          qa = (if dict_get payload ''qa_score'' \<noteq> PNone then
                  [n8n_webhook ''webhooks/update_qa_metrics''
                     [(''workspace_id'', PStr ws), (''record'', PDict payload)]]
                else []);
          handoff = (if stage \<in> set [''go_live'', ''golive'', ''live''] then
                       [n8n_webhook ''webhooks/go_live_handoff''
                          [(''workspace_id'', PStr ws), (''record'', PDict payload)]]
                     else [])
      in [(''actions'', PList (tasks @ qa @ handoff))])"

text \<open>\<open>ReportingAttributionAgent.evaluate\<close> (reporting\_attribution\_agent.py).\<close>

definition reporting_evaluate :: "string \<Rightarrow> string \<Rightarrow> pydict \<Rightarrow> pydict" where
  "reporting_evaluate ws event_type payload =
     (let et = py_lower event_type;
          digest = (if str_contains ''weekly'' et \<or> str_contains ''digest'' et then
                      [n8n_webhook ''webhooks/weekly_digest'' [(''workspace_id'', PStr ws)]]
                    else []);
          velocity = (if truthy (py_or (dict_get payload ''deal_id'') (dict_get payload ''stage''))
                      then [n8n_webhook ''webhooks/update_velocity_and_attribution''
                              [(''workspace_id'', PStr ws), (''record'', PDict payload)]]
                      else [])
      in [(''actions'', PList (digest @ velocity))])"

text \<open>\<open>OpsSelfHealAgent.evaluate\<close> (ops\_self\_heal\_agent.py). The alert carries the
  decisions as they are when the agent is called.\<close>

definition ops_evaluate :: "string \<Rightarrow> pydict \<Rightarrow> pyval list \<Rightarrow> string list \<Rightarrow> pydict" where
  "ops_evaluate ws decs acts errs =
     (let extra = (if errs \<noteq> [] then
                     [n8n_webhook ''webhooks/ops_alert''
                        [(''workspace_id'', PStr ws),
                         (''errors'', PList (map PStr errs)),
                         (''decisions'', PDict decs)]]
                   else [])
      in [(''actions'', PList extra)])"


section \<open>The orchestrator (gtm\_orchestrator.py)\<close>

record GTMState =
  workspace_id :: string
  event_type :: string
  event_payload :: pydict
  decisions :: pydict
  actions :: "pyval list"
  approved :: bool
  errors :: "string list"
  timestamp :: datetime

text \<open>\<open>state["decisions"][name] = decision\<close> followed by
  \<open>state["actions"].extend(decision.get("actions", []))\<close>. A new key goes to the end of the
  dictionary, so the keys of \<open>decisions\<close> list the stages in the order they ran.\<close>

definition decision_actions :: "pydict \<Rightarrow> pyval list" where
  "decision_actions decision =
     (case dict_get_default decision ''actions'' (PList []) of PList acts \<Rightarrow> acts | _ \<Rightarrow> [])"

definition record_decision :: "GTMState \<Rightarrow> string \<Rightarrow> pydict \<Rightarrow> GTMState" where
  "record_decision st stage decision =
     st\<lparr>decisions := AList.update stage (PDict decision) (decisions st),
        actions := actions st @ decision_actions decision\<rparr>"

text \<open>The eight node functions. A node returns the updated state, or the exception its
  agent raised: no node catches one, and none writes \<open>errors\<close>.\<close>

definition classify_event :: "GTMState \<Rightarrow> pyerr + GTMState" where
  "classify_event st =
     Inr (st\<lparr>decisions := AList.update ''event''
                 (PDict (classify (event_type st) (event_payload st))) (decisions st)\<rparr>)"

definition schema_discovery :: "config_store \<Rightarrow> GTMState \<Rightarrow> pyerr + GTMState" where
  "schema_discovery store st =
     (case ensure_workspace_schema store (workspace_id st) of
        Inl e \<Rightarrow> Inl e
      | Inr decision \<Rightarrow> Inr (record_decision st ''schema'' decision))"

definition routing_sla :: "config_store \<Rightarrow> GTMState \<Rightarrow> pyerr + GTMState" where
  "routing_sla store st =
     (case routing_evaluate store (workspace_id st) (decisions st) (event_payload st) of
        Inl e \<Rightarrow> Inl e
      | Inr decision \<Rightarrow> Inr (record_decision st ''routing'' decision))"

definition lifecycle_enforcement ::
  "(real \<Rightarrow> string) \<Rightarrow> config_store \<Rightarrow> GTMState \<Rightarrow> pyerr + GTMState" where
  "lifecycle_enforcement float_repr store st =
     (case lifecycle_evaluate float_repr store (workspace_id st) (event_payload st) of
        Inl e \<Rightarrow> Inl e
      | Inr decision \<Rightarrow> Inr (record_decision st ''lifecycle'' decision))"

definition data_hygiene :: "GTMState \<Rightarrow> pyerr + GTMState" where
  "data_hygiene st =
     (case hygiene_evaluate (workspace_id st) (event_payload st) of
        Inl e \<Rightarrow> Inl e
      | Inr decision \<Rightarrow> Inr (record_decision st ''hygiene'' decision))"

definition onboarding_go_live :: "(real \<Rightarrow> string) \<Rightarrow> GTMState \<Rightarrow> pyerr + GTMState" where
  "onboarding_go_live float_repr st =
     Inr (record_decision st ''onboarding''
            (onboarding_evaluate float_repr (workspace_id st) (event_payload st)))"

definition reporting_attribution :: "GTMState \<Rightarrow> pyerr + GTMState" where
  "reporting_attribution st =
     Inr (record_decision st ''reporting''
            (reporting_evaluate (workspace_id st) (event_type st) (event_payload st)))"

definition ops_self_heal :: "GTMState \<Rightarrow> pyerr + GTMState" where
  "ops_self_heal st =
     Inr (record_decision st ''ops''
            (ops_evaluate (workspace_id st) (decisions st) (actions st) (errors st)))"

text \<open>\<open>_needs_onboarding\<close>, the branch after the hygiene stage.\<close>

definition needs_onboarding :: "GTMState \<Rightarrow> pyerr + string" where
  "needs_onboarding st =
     (case dict_get_default (decisions st) ''event'' (PDict []) of
        PDict evt \<Rightarrow>
          (case in_str_set (dict_get evt ''category'')
                  [''deal_stage_changed'', ''qa_updated'', ''go_live''] of
             Inl e \<Rightarrow> Inl e
           | Inr True \<Rightarrow> Inr ''onboarding''
           | Inr False \<Rightarrow> Inr ''reporting'')
      | _ \<Rightarrow> Inl AttributeError)"

text \<open>Sequencing of calls that can raise: the first exception ends the sequence.\<close>

definition and_then :: "pyerr + 'a \<Rightarrow> ('a \<Rightarrow> pyerr + 'b) \<Rightarrow> pyerr + 'b" where
  "and_then r f = (case r of Inl e \<Rightarrow> Inl e | Inr x \<Rightarrow> f x)"

definition initial_state :: "datetime \<Rightarrow> string \<Rightarrow> string \<Rightarrow> pydict \<Rightarrow> GTMState" where
  "initial_state now ws et payload =
     \<lparr>workspace_id = ws, event_type = et, event_payload = payload, decisions = [],
      actions = [], approved = False, errors = [], timestamp = now\<rparr>"

text \<open>The fallback of \<open>handle_event\<close>: the straight-line sequence of the stages.\<close>

definition run_sequential :: "(real \<Rightarrow> string) \<Rightarrow> config_store \<Rightarrow> GTMState \<Rightarrow> pyerr + GTMState" where
  "run_sequential float_repr store initial =
     and_then (classify_event initial) (\<lambda>st.
     and_then (schema_discovery store st) (\<lambda>st.
     and_then (routing_sla store st) (\<lambda>st.
     and_then (lifecycle_enforcement float_repr store st) (\<lambda>st.
     and_then (data_hygiene st) (\<lambda>st.
     and_then (needs_onboarding st) (\<lambda>branch.
     and_then (if branch = ''onboarding'' then onboarding_go_live float_repr st else Inr st)
       (\<lambda>st.
     and_then (reporting_attribution st) (\<lambda>st.
     ops_self_heal st))))))))"

subsection \<open>The declared graph and its interpreter\<close>

text \<open>\<open>_build_graph\<close> declares the nodes, the entry point and the edges of a
  \<open>StateGraph\<close>; an edge is either unconditional or a router function with a table from
  its results to nodes.\<close>

datatype edge =
    Edge string
  | ConditionalEdges "GTMState \<Rightarrow> pyerr + string" "(string \<times> string) list"

record StateGraph =
  nodes :: "(string \<times> (GTMState \<Rightarrow> pyerr + GTMState)) list"
  entry_point :: string
  edges :: "(string \<times> edge) list"

definition END :: string where
  "END = ''__end__''"

definition build_graph :: "(real \<Rightarrow> string) \<Rightarrow> config_store \<Rightarrow> StateGraph" where
  "build_graph float_repr store =
     \<lparr>nodes =
        [(''classify'', classify_event),
         (''schema'', schema_discovery store),
         (''routing'', routing_sla store),
         (''lifecycle'', lifecycle_enforcement float_repr store),
         (''hygiene'', data_hygiene),
         (''onboarding'', onboarding_go_live float_repr),
         (''reporting'', reporting_attribution),
         (''ops'', ops_self_heal)],
      entry_point = ''classify'',
      edges =
        [(''classify'', Edge ''schema''),
         (''schema'', Edge ''routing''),
         (''routing'', Edge ''lifecycle''),
         (''lifecycle'', Edge ''hygiene''),
         (''hygiene'', ConditionalEdges needs_onboarding
            [(''onboarding'', ''onboarding''), (''reporting'', ''reporting'')]),
         (''onboarding'', Edge ''reporting''),
         (''reporting'', Edge ''ops''),
         (''ops'', Edge END)]\<rparr>"

text \<open>
  Modelled from the spec: the declarative-graph interpreter. The compiled graph is run by
  the LangGraph library, which is not part of the repository; the model is the walk the
  design describes: start at the entry point, run the node on the state, follow the
  node's edge (asking the router of a conditional edge and looking its answer up in the
  table), and stop at \<open>END\<close>. An exception raised by a node or a router ends the run.
  The number of steps is bounded by the library's recursion limit (25 by default),
  beyond which it raises.
\<close>

fun ainvoke :: "nat \<Rightarrow> StateGraph \<Rightarrow> string \<Rightarrow> GTMState \<Rightarrow> pyerr + GTMState" where
  "ainvoke 0 g node st = Inl GraphRecursionError"
| "ainvoke (Suc limit) g node st =
     (if node = END then Inr st
      else case map_of (nodes g) node of
             None \<Rightarrow> Inl (KeyError node)
           | Some f \<Rightarrow>
               and_then (f st) (\<lambda>st'.
                 case map_of (edges g) node of
                   None \<Rightarrow> Inr st'
                 | Some (Edge target) \<Rightarrow> ainvoke limit g target st'
                 | Some (ConditionalEdges router table) \<Rightarrow>
                     and_then (router st') (\<lambda>answer.
                       case map_of table answer of
                         None \<Rightarrow> Inl (KeyError answer)
                       | Some target \<Rightarrow> ainvoke limit g target st')))"

definition recursion_limit :: nat where
  "recursion_limit = 25"

text \<open>\<open>handle_event\<close>. \<open>graph_available\<close> says whether the orchestrator holds a compiled
  graph (LangGraph is installed) or \<open>None\<close>, in which case it runs the fallback.\<close>

definition handle_event ::
  "(real \<Rightarrow> string) \<Rightarrow> config_store \<Rightarrow> bool \<Rightarrow> datetime \<Rightarrow> string \<Rightarrow> string \<Rightarrow> pydict
     \<Rightarrow> pyerr + GTMState" where
  "handle_event float_repr store graph_available now ws et payload =
     (let initial = initial_state now ws et payload
      in if \<not> graph_available then run_sequential float_repr store initial
         else ainvoke recursion_limit (build_graph float_repr store)
                (entry_point (build_graph float_repr store)) initial)"

text \<open>The keys of \<open>decisions\<close> after a run that went through onboarding, and after one
  that did not.\<close>

definition stages_with_onboarding :: "string list" where
  "stages_with_onboarding =
     [''event'', ''schema'', ''routing'', ''lifecycle'', ''hygiene'', ''onboarding'',
      ''reporting'', ''ops'']"

definition stages_without_onboarding :: "string list" where
  "stages_without_onboarding =
     [''event'', ''schema'', ''routing'', ''lifecycle'', ''hygiene'', ''reporting'', ''ops'']"

text \<open>The category a run's classifier assigns to an event, and the categories for which
  the branch after hygiene goes to onboarding.\<close>

definition event_category :: "string \<Rightarrow> pydict \<Rightarrow> pyval" where
  "event_category et payload = dict_get (classify et payload) ''category''"

definition onboarding_categories :: "pyval set" where
  "onboarding_categories = {PStr ''deal_stage_changed'', PStr ''qa_updated'', PStr ''go_live''}"

text \<open>Payloads and configurations on which no stage raises: \<open>email\<close> and \<open>domain\<close> are
  strings when they are present and truthy, \<open>icp_score\<close> converts to an integer, and the
  required-field table of the workspace is a dictionary of lists of field names.\<close>

definition str_or_falsy :: "pyval \<Rightarrow> bool" where
  "str_or_falsy v = (case v of PStr s \<Rightarrow> True | _ \<Rightarrow> \<not> truthy v)"

fun is_str :: "pyval \<Rightarrow> bool" where
  "is_str (PStr s) = True"
| "is_str v = False"

definition field_table :: "pyval \<Rightarrow> bool" where
  "field_table v =
     (case v of
        PDict table \<Rightarrow>
          list_all (\<lambda>kv. case snd kv of PList fs \<Rightarrow> list_all is_str fs | _ \<Rightarrow> False) table
      | _ \<Rightarrow> False)"

definition well_typed_event :: "WorkspaceConfig \<Rightarrow> pydict \<Rightarrow> bool" where
  "well_typed_event cfg payload =
     (str_or_falsy (dict_get payload ''email'')
      \<and> str_or_falsy (dict_get payload ''domain'')
      \<and> (case py_int (py_or (dict_get payload ''icp_score'') (PInt 0)) of
            Inr i \<Rightarrow> True | Inl e \<Rightarrow> False)
      \<and> field_table (dict_get_default (thresholds cfg) ''definition_of_done''
                        default_definition_of_done))"

text \<open>A workspace configuration for the worked examples: the Notion databases are
  provisioned, the Slack channel is not.\<close>

definition acme_config :: WorkspaceConfig where
  "acme_config =
     \<lparr>cfg_workspace_id = ''acme'', cfg_name = ''Acme'', mode = notion_first,
      crm_type = None, notion_enabled = True, slack_enabled = True, n8n_enabled = True,
      ids = [(''notion_contacts_db'', ''db1''), (''notion_accounts_db'', ''db2''),
             (''notion_deals_db'', ''db3''), (''notion_tasks_db'', ''db4'')],
      field_map = [], plays_enabled = [], thresholds = [],
      routing = [(''default_owner'', PStr ''sdr-team''), (''high_fit_owner'', PStr ''ae-team'')]\<rparr>"

text \<open>What holds of the state of a run on \<open>(ws, et, payload)\<close> after the stages \<open>ks\<close>: the
  inputs are unchanged, nothing is approved, \<open>errors\<close> is empty, the keys of \<open>decisions\<close>
  are the stages that ran, and the classifier's decision is stored under \<open>event\<close>.\<close>

definition after_stages ::
  "datetime \<Rightarrow> string \<Rightarrow> string \<Rightarrow> pydict \<Rightarrow> string list \<Rightarrow> GTMState \<Rightarrow> bool" where
  "after_stages now ws et payload ks st =
     (workspace_id st = ws \<and> event_type st = et \<and> event_payload st = payload
      \<and> approved st = False \<and> errors st = [] \<and> timestamp st = now
      \<and> map fst (decisions st) = ks
      \<and> (ks \<noteq> [] \<longrightarrow> map_of (decisions st) ''event'' = Some (PDict (classify et payload))))"


section \<open>Properties of the auction\<close>

lemma accumulated_cost_snoc:
  "map_of bids agent = Some c \<Longrightarrow>
     accumulated_cost rnd bids (selected @ [agent])
       = float_add rnd (accumulated_cost rnd bids selected) c"
  by (simp add: accumulated_cost_def)

lemma select_agents_invariant:
  assumes "tc \<le> budget" and "tc = accumulated_cost rnd bids selected"
    and "fst ` set xs \<subseteq> fst ` set bids"
  shows "\<exists>sel c. select_agents rnd bids budget xs selected tc = Inr (sel, c)
           \<and> c \<le> budget \<and> c = accumulated_cost rnd bids sel"
  using assms
proof (induction xs arbitrary: selected tc)
  case Nil
  then show ?case by simp
next
  case (Cons x xs)
  obtain agent ratio where x: "x = (agent, ratio)" by (cases x)
  from Cons.prems(3) x have "agent \<in> fst ` set bids" by simp
  then obtain c where c: "map_of bids agent = Some c"
    by (metis domD dom_map_of_conv_image_fst)
  from Cons.prems(3) have sub: "fst ` set xs \<subseteq> fst ` set bids" by simp
  show ?case
  proof (cases "float_add rnd tc c \<le> budget")
    case True
    have "float_add rnd tc c = accumulated_cost rnd bids (selected @ [agent])"
      using Cons.prems(2) c by (simp add: accumulated_cost_snoc)
    from Cons.IH[OF True this sub] x c True show ?thesis by simp
  next
    case False
    with Cons.IH[OF Cons.prems(1) Cons.prems(2) sub] x c show ?thesis by simp
  qed
qed

lemma sorted_agents_keys:
  "fst ` set (sort_key f (map (\<lambda>(agent, bid). (agent, g agent bid)) bids)) \<subseteq> fst ` set bids"
  by force

lemma round_half_even_floor:
  "round_half_even y = \<lfloor>y\<rfloor> \<or> round_half_even y = \<lfloor>y\<rfloor> + 1"
  by (simp add: round_half_even_def Let_def)

lemma round_half_even_mono:
  assumes "x \<le> y"
  shows "round_half_even x \<le> round_half_even y"
proof (cases "\<lfloor>x\<rfloor> = \<lfloor>y\<rfloor>")
  case True
  with assms have "x - of_int \<lfloor>x\<rfloor> \<le> y - of_int \<lfloor>y\<rfloor>" by simp
  with True show ?thesis
    by (auto simp: round_half_even_def Let_def)
next
  case False
  with assms have "\<lfloor>x\<rfloor> < \<lfloor>y\<rfloor>"
    using floor_mono[OF assms] by linarith
  moreover have "round_half_even x \<le> \<lfloor>x\<rfloor> + 1"
    using round_half_even_floor[of x] by linarith
  moreover have "\<lfloor>y\<rfloor> \<le> round_half_even y"
    using round_half_even_floor[of y] by linarith
  ultimately show ?thesis by linarith
qed

lemma decimal_round_mono:
  assumes "x \<le> y"
  shows "decimal_round x n \<le> decimal_round y n"
proof -
  from assms have "x * 10 ^ n \<le> y * 10 ^ n" by simp
  then have "round_half_even (x * 10 ^ n) \<le> round_half_even (y * 10 ^ n)"
    by (rule round_half_even_mono)
  then have "(of_int (round_half_even (x * 10 ^ n)) :: real)
      \<le> of_int (round_half_even (y * 10 ^ n))"
    by simp
  then show ?thesis
    by (simp add: decimal_round_def divide_right_mono)
qed

lemma run_auction_exact_bid:
  "run_auction rnd \<lparr>lead_id = ''lead-1'', agent_bids = [(''research'', 4095 / 65536)],
                    quality_scores = [(''research'', 80)], budget_limit = 4095 / 65536\<rparr>
     = Inr \<lparr>consensus_reached = False, selected_agents = [''research''],
            total_cost = rnd (1 / 16), rationale = (1, 4095 / 65536)\<rparr>"
  by (simp add: run_auction_def value_ratio_def py_round_def decimal_round_def
      round_half_even_def float_add_def fl_def Let_def)

text \<open>
  C3, as stated, fails: the loop keeps the accumulated cost within the budget, but the
  returned \<open>total_cost\<close> is that cost passed through \<open>round(..., 4)\<close>, which can lift it
  above the budget. The budget and the one bid are both
  \<open>4095 / 65536 = 0.0624847412109375\<close>, an exact float; \<open>0.0 + bid\<close> is exact, the agent
  is accepted, and the returned \<open>total_cost\<close> is \<open>0.0625\<close>, an exact float too, so that no
  operation that decides the result rounds (lemma \<open>run_auction_exact_bid\<close> gives the
  response for any rounding; here the rounding is the identity).
\<close>

theorem run_auction_total_cost_counterexample:
  "run_auction (\<lambda>x. x) \<lparr>lead_id = ''lead-1'', agent_bids = [(''research'', 4095 / 65536)],
                quality_scores = [(''research'', 80)], budget_limit = 4095 / 65536\<rparr>
     = Inr \<lparr>consensus_reached = False, selected_agents = [''research''],
            total_cost = 1 / 16, rationale = (1, 4095 / 65536)\<rparr>
   \<and> \<not> ((1 / 16 :: real) \<le> 4095 / 65536)"
  by (simp add: run_auction_exact_bid)

text \<open>
  C3, amended: for every budget \<open>B \<ge> 0\<close> and every bid map and quality map the auction
  returns a response; the cost the loop has accumulated for the agents it selected
  (their bids, added in float arithmetic in the order of selection) is at most \<open>B\<close>; and
  the returned \<open>total_cost\<close> is \<open>round\<close> of that cost to four decimal places, so that,
  rounding being monotone, it is at most \<open>round(B, 4)\<close>: it exceeds the budget only when
  rounding the budget to four decimal places does.
\<close>

theorem run_auction_within_budget:
  assumes "0 \<le> budget_limit request"
  shows "\<exists>r. run_auction rnd request = Inr r
           \<and> accumulated_cost rnd (agent_bids request) (selected_agents r)
               \<le> budget_limit request
           \<and> total_cost r
               = py_round rnd (accumulated_cost rnd (agent_bids request) (selected_agents r)) 4
           \<and> ((\<forall>x y. x \<le> y \<longrightarrow> fl rnd x \<le> fl rnd y)
                \<longrightarrow> total_cost r \<le> py_round rnd (budget_limit request) 4)"
proof -
  let ?bids = "agent_bids request"
  let ?sorted = "sort_key (\<lambda>x. - snd x)
      (map (\<lambda>(agent, bid). (agent, value_ratio rnd (quality_scores request) agent bid)) ?bids)"
  have start: "(0::real) = accumulated_cost rnd ?bids []" by (simp add: accumulated_cost_def)
  obtain sel c where sel:
      "select_agents rnd ?bids (budget_limit request) ?sorted [] 0 = Inr (sel, c)"
      "c \<le> budget_limit request" "c = accumulated_cost rnd ?bids sel"
    using select_agents_invariant[OF assms start sorted_agents_keys] by blast
  have "py_round rnd c 4 \<le> py_round rnd (budget_limit request) 4"
    if "\<forall>x y. x \<le> y \<longrightarrow> fl rnd x \<le> fl rnd y"
    using that decimal_round_mono[OF sel(2), of 4] by (simp add: py_round_def)
  with sel show ?thesis by (simp add: run_auction_def)
qed

theorem run_auction_within_budget_witness:
  "\<exists>r. run_auction (\<lambda>x. x) \<lparr>lead_id = ''lead-1'',
          agent_bids = [(''A'', 1 / 16), (''B'', 1 / 8), (''C'', 1 / 4)],
          quality_scores = [(''A'', 90), (''B'', 95), (''C'', 50)],
          budget_limit = 1 / 4\<rparr> = Inr r
     \<and> accumulated_cost (\<lambda>x. x) [(''A'', 1 / 16), (''B'', 1 / 8), (''C'', 1 / 4)]
           (selected_agents r) \<le> 1 / 4
     \<and> total_cost r \<le> 1 / 4"
proof -
  have mono: "\<forall>x y :: real. x \<le> y \<longrightarrow> fl (\<lambda>x. x) x \<le> fl (\<lambda>x. x) y"
    by (simp add: fl_def)
  have budget: "py_round (\<lambda>x. x) (1 / 4) 4 = 1 / 4"
    by (simp add: py_round_def decimal_round_def round_half_even_def fl_def Let_def)
  from run_auction_within_budget
    [of "\<lparr>lead_id = ''lead-1'',
          agent_bids = [(''A'', 1 / 16), (''B'', 1 / 8), (''C'', 1 / 4)],
          quality_scores = [(''A'', 90), (''B'', 95), (''C'', 50)],
          budget_limit = 1 / 4\<rparr>" "\<lambda>x. x"] mono budget
  show ?thesis by auto
qed

lemma select_agents_positive_bids:
  assumes "\<forall>(a, c) \<in> set bids. 0 < c" and "fst ` set xs \<subseteq> fst ` set bids"
  shows "select_agents rnd bids 0 xs [] 0 = Inr ([], 0)"
  using assms(2)
proof (induction xs)
  case Nil
  then show ?case by simp
next
  case (Cons x xs)
  obtain agent ratio where x: "x = (agent, ratio)" by (cases x)
  from Cons.prems x have "agent \<in> fst ` set bids" by simp
  then obtain c where c: "map_of bids agent = Some c"
    by (metis domD dom_map_of_conv_image_fst)
  then have "(agent, c) \<in> set bids" by (rule map_of_SomeD)
  with assms(1) have "0 < c" by auto
  then have "\<not> float_add rnd 0 c \<le> 0" by (simp add: float_add_def)
  moreover from Cons have "select_agents rnd bids 0 xs [] 0 = Inr ([], 0)" by simp
  ultimately show ?case using x c by simp
qed

text \<open>
  C4, as stated, fails: the loop accepts an agent whenever the accumulated cost plus its
  bid does not exceed the budget, so with a budget of 0 every agent that bids 0 is
  accepted. Two such agents are both selected and consensus is reached. No operation
  rounds on this input.
\<close>

theorem run_auction_zero_budget_counterexample:
  "run_auction (\<lambda>x. x)
       \<lparr>lead_id = ''lead-1'', agent_bids = [(''timing'', 0), (''qualification'', 0)],
        quality_scores = [], budget_limit = 0\<rparr>
     = Inr \<lparr>consensus_reached = True, selected_agents = [''timing'', ''qualification''],
            total_cost = 0, rationale = (2, 0)\<rparr>"
  by (simp add: run_auction_def value_ratio_def py_round_def decimal_round_def
      round_half_even_def float_add_def fl_def Let_def)

text \<open>
  C4, amended: for every bid map whose costs are all strictly positive and every quality
  map, the auction with \<open>budget_limit = 0\<close> returns an empty \<open>selected_agents\<close> list,
  \<open>total_cost = 0\<close> and \<open>consensus_reached = false\<close>.
\<close>

theorem run_auction_zero_budget:
  assumes "budget_limit request = 0" and "\<forall>(a, c) \<in> set (agent_bids request). 0 < c"
  shows "run_auction rnd request =
           Inr \<lparr>consensus_reached = False, selected_agents = [], total_cost = 0,
                rationale = (0, 0)\<rparr>"
proof -
  have "select_agents rnd (agent_bids request) 0
          (sort_key (\<lambda>x. - snd x)
             (map (\<lambda>(agent, bid). (agent, value_ratio rnd (quality_scores request) agent bid))
                (agent_bids request))) [] 0 = Inr ([], 0)"
    by (rule select_agents_positive_bids[OF assms(2) sorted_agents_keys])
  then show ?thesis
    using assms(1)
    by (simp add: run_auction_def py_round_def decimal_round_def round_half_even_def fl_def)
qed

theorem run_auction_zero_budget_witness:
  "run_auction (\<lambda>x. x) \<lparr>lead_id = ''lead-1'',
       agent_bids = [(''research'', 1 / 16), (''timing'', 1 / 32)],
       quality_scores = [(''research'', 85)], budget_limit = 0\<rparr>
     = Inr \<lparr>consensus_reached = False, selected_agents = [], total_cost = 0,
            rationale = (0, 0)\<rparr>"
  using run_auction_zero_budget
    [of "\<lparr>lead_id = ''lead-1'',
          agent_bids = [(''research'', 1 / 16), (''timing'', 1 / 32)],
          quality_scores = [(''research'', 85)], budget_limit = 0\<rparr>" "\<lambda>x. x"]
  by simp


section \<open>MD5 on two inputs\<close>

lemma replicate_numeral_Cons: "replicate (numeral k) x = x # replicate (pred_numeral k) x"
  by (simp add: numeral_eq_Suc)

lemma upt_0_numeral_Cons: "[0..<numeral n] = 0 # [Suc 0..<numeral n]"
  by (simp add: upt_rec[of 0])

lemma upt_1_numeral_Cons:
  "[Suc 0..<numeral n] = (if Suc 0 < numeral n then Suc 0 # [2..<numeral n] else [])"
  by (simp add: upt_rec[of "Suc 0"] numeral_2_eq_2)

text \<open>The digest of \<open>exp1:user-42\<close>, the scenario of the specification, computed step by
  step: the padded message as sixteen words, the 64 rounds on them, the chaining
  addition, the digest bytes and their value as a number. It agrees with \<open>hashlib.md5\<close>,
  whose hexadecimal digest of this string is 32985675949b1071b028b5bf22f3edf7; the bucket
  is 71.\<close>

lemma md5_scenario_words:
  "le_words (md5_pad (map of_char (''exp1:user-42''))) =
     [829454437, 1702065466, 842280306, 128, 0, 0, 0, 0, 0, 0, 0, 0, 0, 0, 96, 0]"
  by (simp add: md5_pad_def le_bytes_def replicate_numeral_Cons upt_0_numeral_Cons
      upt_1_numeral_Cons)

lemma md5_scenario_rounds:
  "fold (md5_step [829454437, 1702065466, 842280306, 128, 0, 0, 0, 0, 0, 0, 0, 0, 0, 0, 96, 0])
     [0..<64] (0x67452301, 0xefcdab89, 0x98badcfe, 0x10325476)
     = (236025137, 2168647691, 653937586, 3887832748)"
  by (simp add: md5_step_def md5_K_def md5_s_def rotl32_def Let_def upt_0_numeral_Cons
      upt_1_numeral_Cons)

lemma md5_scenario_blocks:
  "md5_blocks (0x67452301, 0xefcdab89, 0x98badcfe, 0x10325476)
     [829454437, 1702065466, 842280306, 128, 0, 0, 0, 0, 0, 0, 0, 0, 0, 0, 96, 0]
     = (1968609330, 1896913812, 3216320688, 4159566626)"
  by (simp add: md5_blocks_def md5_block_def md5_scenario_rounds)

lemma md5_scenario_digest:
  "md5_digest (''exp1:user-42'') =
     [50, 152, 86, 117, 148, 155, 16, 113, 176, 40, 181, 191, 34, 243, 237, 247]"
  unfolding md5_digest_def md5_scenario_words md5_scenario_blocks
  by (simp add: le_bytes_def upt_0_numeral_Cons upt_1_numeral_Cons)

lemma md5_scenario: "md5_int (''exp1:user-42'') = 67252382514655258267949685683434810871"
  by (simp add: md5_int_def md5_scenario_digest)

lemma experiment_bucket_scenario: "experiment_bucket ''exp1'' ''user-42'' = 71"
  by (simp add: experiment_bucket_def md5_scenario)

text \<open>A user id outside ASCII: the user \<open>U+00E9\<close> (e with acute accent) of the experiment
  \<open>exp1\<close>. The string hashed is \<open>exp1:\<close> followed by the two bytes C3 A9 of the
  UTF-8 encoding; \<open>hashlib.md5\<close> gives the digest 32feedb0771b71f3d982b8f7b00dde19 for
  it, and the bucket is 93.\<close>

lemma md5_utf8_words:
  "le_words (md5_pad (map of_char (''exp1:'' @ [CHR 0xC3, CHR 0xA9]))) =
     [829454437, 2158609210, 0, 0, 0, 0, 0, 0, 0, 0, 0, 0, 0, 0, 56, 0]"
  by (simp add: md5_pad_def le_bytes_def replicate_numeral_Cons upt_0_numeral_Cons
      upt_1_numeral_Cons)

lemma md5_utf8_rounds:
  "fold (md5_step [829454437, 2158609210, 0, 0, 0, 0, 0, 0, 0, 0, 0, 0, 0, 0, 56, 0])
     [0..<64] (0x67452301, 0xefcdab89, 0x98badcfe, 0x10325476)
     = (1235802929, 61042670, 1593681371, 162249018)"
  by (simp add: md5_step_def md5_K_def md5_s_def rotl32_def Let_def upt_0_numeral_Cons
      upt_1_numeral_Cons)

lemma md5_utf8_blocks:
  "md5_blocks (0x67452301, 0xefcdab89, 0x98badcfe, 0x10325476)
     [829454437, 2158609210, 0, 0, 0, 0, 0, 0, 0, 0, 0, 0, 0, 0, 56, 0]
     = (2968387122, 4084276087, 4156064473, 433982896)"
  by (simp add: md5_blocks_def md5_block_def md5_utf8_rounds)

lemma md5_utf8_digest:
  "md5_digest (''exp1:'' @ [CHR 0xC3, CHR 0xA9]) =
     [50, 254, 237, 176, 119, 27, 113, 243, 217, 130, 184, 247, 176, 13, 222, 25]"
  unfolding md5_digest_def md5_utf8_words md5_utf8_blocks
  by (simp add: le_bytes_def upt_0_numeral_Cons upt_1_numeral_Cons)

lemma md5_utf8: "md5_int (''exp1:'' @ [CHR 0xC3, CHR 0xA9]) = 67785064103408203110765316418378259993"
  unfolding md5_int_def md5_utf8_digest by simp

lemma experiment_bucket_utf8: "experiment_bucket ''exp1'' [CHR 0xC3, CHR 0xA9] = 93"
  using md5_utf8 by (simp add: experiment_bucket_def)


section \<open>Properties of the feature flags\<close>

text \<open>
  C10: calling \<open>is_on\<close> with a key for which no flag is registered returns False and
  leaves the client unchanged: no flag's \<open>last_evaluated\<close> is written and nothing is
  appended to the evaluation log.
\<close>

theorem is_on_unknown_key:
  assumes "map_of (features c) k = None"
  shows "is_on float_repr now c k attributes = (Inr (PBool False), c)"
  using assms by (simp add: is_on_def)

theorem is_on_unknown_key_witness:
  "map_of (features (new_client 0 True)) ''enable_voice_agent'' = None
   \<and> is_on (\<lambda>r. []) 1000000 (new_client 0 True) ''enable_voice_agent''
        (Some [(''plan'', PStr ''pro'')])
      = (Inr (PBool False), new_client 0 True)"
proof -
  have unknown: "map_of (features (new_client 0 True)) ''enable_voice_agent'' = None"
    by (simp add: new_client_def init_default_features_def default_feature_def)
  from is_on_unknown_key[OF unknown] unknown show ?thesis by simp
qed

lemma is_stale_whole_days:
  "is_stale now f days \<longleftrightarrow>
     (case last_evaluated f of None \<Rightarrow> True | Some t \<Rightarrow> (days + 1) * 86400000000 \<le> now - t)"
  by (auto simp: is_stale_def timedelta_days_def split: option.splits)

text \<open>
  C8, at the failing input: with \<open>N = 30\<close>, a flag last evaluated 30 days and 12 hours
  before \<open>now\<close> has not been evaluated for more than 30 days, and \<open>get_stale_flags\<close>
  leaves it out. The code compares the whole days of the elapsed time with \<open>N\<close>, so a
  flag counts as stale only from \<open>N + 1\<close> full days on.
\<close>

theorem get_stale_flags_whole_days_only:
  "30 * 86400000000 < (5000000000000 :: int) - (5000000000000 - (30 * 86400000000 + 43200000000))
   \<and> get_stale_flags 5000000000000
        \<lparr>local_mode = True,
         features = [(''enable_research_agent'',
            \<lparr>key = ''enable_research_agent'', description = [], enabled = True,
             default_value = PBool True, rules = [], status = ACTIVE,
             environment = ''production'', created_at = 0, updated_at = 0,
             last_evaluated = Some (5000000000000 - (30 * 86400000000 + 43200000000))\<rparr>)],
         experiments = [], configs = [], evaluation_log = []\<rparr> 30 = []"
  by (simp add: get_stale_flags_def is_stale_def timedelta_days_def)


lemma first_matching_rule_none:
  assumes "\<forall>r \<in> set rs. evaluate_rule float_repr r attrs = Inr False"
  shows "first_matching_rule float_repr rs attrs en = Inr None"
  using assms by (induction rs) simp_all

lemma first_matching_rule_decided:
  assumes "i < length rs"
    and "\<forall>j < i. evaluate_rule float_repr (rs ! j) attrs = Inr False"
  shows "first_matching_rule float_repr rs attrs en =
           (case evaluate_rule float_repr (rs ! i) attrs of
              Inl e \<Rightarrow> Inl e
            | Inr True \<Rightarrow> Inr (Some (dict_get_default (rs ! i) ''value'' (PBool en)))
            | Inr False \<Rightarrow> first_matching_rule float_repr (drop (Suc i) rs) attrs en)"
  using assms
proof (induction rs arbitrary: i)
  case Nil
  then show ?case by simp
next
  case (Cons r rs)
  show ?case
  proof (cases i)
    case 0
    show ?thesis unfolding 0 by (simp split: sum.splits bool.splits)
  next
    case (Suc n)
    with Cons.prems have first: "evaluate_rule float_repr r attrs = Inr False"
      and n: "n < length rs"
      and before: "\<forall>j < n. evaluate_rule float_repr (rs ! j) attrs = Inr False"
      by auto
    from Cons.IH[OF n before] first show ?thesis
      unfolding Suc by (simp split: sum.splits bool.splits)
  qed
qed

lemma evaluate_rule_no_attributes: "evaluate_rule float_repr r [] \<noteq> Inr True"
  by (auto simp: evaluate_rule_def dict_has_val_def Let_def split: pyval.splits)

text \<open>
  C7, as stated, fails: a rule's comparison can raise. A flag with the rule
  \<open>score greater_than 50\<close>, evaluated for the attributes \<open>{"score": "high"}\<close>, compares a
  string with an integer, and \<open>is_on\<close> raises TypeError instead of returning a value.
\<close>

theorem is_on_rule_raises_counterexample:
  "fst (is_on (\<lambda>r. []) 1000000
          (create_feature_flag 0 (new_client 0 True) ''beta_scoring'' [] False PNone
             [[(''condition'', PDict [(''attribute'', PStr ''score''),
                                      (''operator'', PStr ''greater_than''),
                                      (''value'', PInt 50)]),
               (''value'', PBool True)]])
          ''beta_scoring'' (Some [(''score'', PStr ''high'')]))
     = Inl TypeError"
  by (simp add: is_on_def create_feature_flag_def new_client_def init_default_features_def
      default_feature_def log_evaluation_def evaluate_rule_def dict_get_def
      dict_get_default_def dict_has_val_def dict_get_val_def Let_def)

text \<open>
  C7, amended: for every known flag key (a key of the flag registry of a client in local
  mode) and every attribute mapping, \<open>is_on\<close> sets the flag's \<open>last_evaluated\<close> to the
  current time and appends one entry to the evaluation log, also when it raises. It
  evaluates the rules in order, none of them when the attributes are empty or absent,
  and stops at the first rule that matches or raises: it returns the \<open>value\<close> entry of the
  first rule whose condition matches the attributes under the rule's operator, the rules
  before it having evaluated to no match (the flag's \<open>enabled\<close> if that rule has no
  \<open>value\<close> entry); it returns the flag's \<open>enabled\<close> if no rule matches or no rule is
  evaluated; and it raises the exception of the first rule whose comparison raises, the
  rules before it having evaluated to no match.
\<close>

theorem is_on_first_match:
  assumes "local_mode c" and "map_of (features c) k = Some f"
  shows "snd (is_on float_repr now c k attributes) =
           log_evaluation now
             (c\<lparr>features := AList.update k (f\<lparr>last_evaluated := Some now\<rparr>) (features c)\<rparr>)
             k (PBool (enabled f)) attributes
       \<and> map_of (features (snd (is_on float_repr now c k attributes))) k =
           Some (f\<lparr>last_evaluated := Some now\<rparr>)
       \<and> (attrs_of attributes = [] \<longrightarrow>
            fst (is_on float_repr now c k attributes) = Inr (PBool (enabled f)))
       \<and> (\<forall>i. i < length (rules f)
              \<and> (\<forall>j < i. evaluate_rule float_repr (rules f ! j) (attrs_of attributes)
                           = Inr False)
              \<and> evaluate_rule float_repr (rules f ! i) (attrs_of attributes) = Inr True
            \<longrightarrow> fst (is_on float_repr now c k attributes) =
                  Inr (dict_get_default (rules f ! i) ''value'' (PBool (enabled f))))
       \<and> ((\<forall>r \<in> set (rules f).
               evaluate_rule float_repr r (attrs_of attributes) = Inr False)
            \<longrightarrow> fst (is_on float_repr now c k attributes) = Inr (PBool (enabled f)))
       \<and> (\<forall>i e. attrs_of attributes \<noteq> [] \<and> i < length (rules f)
              \<and> (\<forall>j < i. evaluate_rule float_repr (rules f ! j) (attrs_of attributes)
                           = Inr False)
              \<and> evaluate_rule float_repr (rules f ! i) (attrs_of attributes) = Inl e
            \<longrightarrow> fst (is_on float_repr now c k attributes) = Inl e)"
proof -
  let ?c2 = "log_evaluation now
      (c\<lparr>features := AList.update k (f\<lparr>last_evaluated := Some now\<rparr>) (features c)\<rparr>)
      k (PBool (enabled f)) attributes"
  let ?attrs = "attrs_of attributes"
  let ?result = "fst (is_on float_repr now c k attributes)"
  have state: "snd (is_on float_repr now c k attributes) = ?c2"
    using assms
    by (simp add: is_on_def Let_def split: option.splits sum.splits)
  have flag: "map_of (features ?c2) k = Some (f\<lparr>last_evaluated := Some now\<rparr>)"
    by (simp add: log_evaluation_def update_conv')
  have skipped: "?result = Inr (PBool (enabled f))" if "?attrs = [] \<or> rules f = []"
    using that assms
    by (cases attributes) (auto simp: is_on_def Let_def attrs_of_def)
  have evaluated: "?result =
      (case first_matching_rule float_repr (rules f) ?attrs (enabled f) of
         Inl e \<Rightarrow> Inl e
       | Inr (Some v) \<Rightarrow> Inr v
       | Inr None \<Rightarrow> Inr (PBool (enabled f)))"
    if "?attrs \<noteq> []" and "rules f \<noteq> []"
    using that assms
    by (cases attributes)
       (auto simp: is_on_def Let_def attrs_of_def split: sum.splits option.splits)
  have matched: "?result = Inr (dict_get_default (rules f ! i) ''value'' (PBool (enabled f)))"
    if i: "i < length (rules f)"
      and before: "\<forall>j < i. evaluate_rule float_repr (rules f ! j) ?attrs = Inr False"
      and hit: "evaluate_rule float_repr (rules f ! i) ?attrs = Inr True" for i
  proof -
    from hit have "?attrs \<noteq> []"
      using evaluate_rule_no_attributes[of float_repr "rules f ! i"] by auto
    moreover from i have "rules f \<noteq> []" by auto
    ultimately show ?thesis
      using evaluated first_matching_rule_decided[OF i before, of "enabled f"] hit by simp
  qed
  have unmatched: "?result = Inr (PBool (enabled f))"
    if "\<forall>r \<in> set (rules f). evaluate_rule float_repr r ?attrs = Inr False"
  proof (cases "?attrs = [] \<or> rules f = []")
    case True
    then show ?thesis by (rule skipped)
  next
    case False
    with evaluated first_matching_rule_none[OF that, of "enabled f"] show ?thesis by simp
  qed
  have raised: "?result = Inl e"
    if "?attrs \<noteq> []" and i: "i < length (rules f)"
      and before: "\<forall>j < i. evaluate_rule float_repr (rules f ! j) ?attrs = Inr False"
      and err: "evaluate_rule float_repr (rules f ! i) ?attrs = Inl e" for i e
  proof -
    from i have "rules f \<noteq> []" by auto
    with that(1) evaluated first_matching_rule_decided[OF i before, of "enabled f"] err
    show ?thesis by simp
  qed
  from state flag have written:
    "map_of (features (snd (is_on float_repr now c k attributes))) k =
       Some (f\<lparr>last_evaluated := Some now\<rparr>)"
    by simp
  from state written skipped matched unmatched raised show ?thesis by blast
qed

theorem is_on_first_match_witness:
  "fst (is_on (\<lambda>r. []) 1000000 scoring_client ''beta_scoring''
          (Some [(''plan'', PStr ''free''), (''seats'', PStr ''many'')]))
     = Inr (PBool False)
   \<and> fst (is_on (\<lambda>r. []) 1000000 scoring_client ''beta_scoring''
          (Some [(''plan'', PStr ''pro''), (''seats'', PInt 25)]))
     = Inr (PBool True)
   \<and> fst (is_on (\<lambda>r. []) 1000000 scoring_client ''beta_scoring''
          (Some [(''plan'', PStr ''pro''), (''seats'', PStr ''many'')]))
     = Inl TypeError
   \<and> fst (is_on (\<lambda>r. []) 1000000 scoring_client ''beta_scoring''
          (Some [(''plan'', PStr ''pro''), (''seats'', PInt 5)]))
     = Inr (PBool False)
   \<and> fst (is_on (\<lambda>r. []) 1000000 scoring_client ''beta_scoring'' None)
     = Inr (PBool False)
   \<and> map_of (features (snd (is_on (\<lambda>r. []) 1000000 scoring_client ''beta_scoring''
          (Some [(''plan'', PStr ''pro''), (''seats'', PStr ''many'')])))) ''beta_scoring''
     = Some (scoring_flag\<lparr>last_evaluated := Some 1000000\<rparr>)"
proof -
  have lm: "local_mode scoring_client" by (simp add: scoring_client_def)
  have known: "map_of (features scoring_client) ''beta_scoring'' = Some scoring_flag"
    by (simp add: scoring_client_def)
  note defs = scoring_flag_def evaluate_rule_def dict_get_def dict_get_default_def
    dict_has_val_def dict_get_val_def attrs_of_def Let_def
  let ?free = "Some [(''plan'', PStr ''free''), (''seats'', PStr ''many'')]"
  let ?pro = "Some [(''plan'', PStr ''pro''), (''seats'', PInt 25)]"
  let ?bad = "Some [(''plan'', PStr ''pro''), (''seats'', PStr ''many'')]"
  have len: "0 < length (rules scoring_flag)" "1 < length (rules scoring_flag)"
    by (simp_all add: scoring_flag_def)
  have free0: "evaluate_rule (\<lambda>r. []) (rules scoring_flag ! 0) (attrs_of ?free) = Inr True"
    by (simp add: defs)
  have pro0: "\<forall>j < 1. evaluate_rule (\<lambda>r. []) (rules scoring_flag ! j) (attrs_of ?pro)
      = Inr False"
    by (simp add: defs)
  have pro1: "evaluate_rule (\<lambda>r. []) (rules scoring_flag ! 1) (attrs_of ?pro) = Inr True"
    by (simp add: defs)
  have bad0: "\<forall>j < 1. evaluate_rule (\<lambda>r. []) (rules scoring_flag ! j) (attrs_of ?bad)
      = Inr False"
    by (simp add: defs)
  have bad1: "evaluate_rule (\<lambda>r. []) (rules scoring_flag ! 1) (attrs_of ?bad) = Inl TypeError"
    by (simp add: defs)
  have nonempty: "attrs_of ?bad \<noteq> []" by (simp add: attrs_of_def)
  from is_on_first_match[OF lm known, of "\<lambda>r. []" 1000000 ?free] len(1) free0
  have "fst (is_on (\<lambda>r. []) 1000000 scoring_client ''beta_scoring'' ?free)
      = Inr (dict_get_default (rules scoring_flag ! 0) ''value'' (PBool (enabled scoring_flag)))"
    by blast
  then have r1: "fst (is_on (\<lambda>r. []) 1000000 scoring_client ''beta_scoring'' ?free)
      = Inr (PBool False)"
    by (simp add: scoring_flag_def dict_get_default_def)
  from is_on_first_match[OF lm known, of "\<lambda>r. []" 1000000 ?pro] len(2) pro0 pro1
  have "fst (is_on (\<lambda>r. []) 1000000 scoring_client ''beta_scoring'' ?pro)
      = Inr (dict_get_default (rules scoring_flag ! 1) ''value'' (PBool (enabled scoring_flag)))"
    by blast
  then have r2: "fst (is_on (\<lambda>r. []) 1000000 scoring_client ''beta_scoring'' ?pro)
      = Inr (PBool True)"
    by (simp add: scoring_flag_def dict_get_default_def)
  note bad = is_on_first_match[OF lm known, of "\<lambda>r. []" 1000000 ?bad]
  from bad len(2) bad0 bad1 nonempty
  have r3: "fst (is_on (\<lambda>r. []) 1000000 scoring_client ''beta_scoring'' ?bad) = Inl TypeError"
    by blast
  from bad have r4: "map_of (features (snd (is_on (\<lambda>r. []) 1000000 scoring_client
      ''beta_scoring'' ?bad))) ''beta_scoring''
      = Some (scoring_flag\<lparr>last_evaluated := Some 1000000\<rparr>)"
    by blast
  have "\<forall>r \<in> set (rules scoring_flag).
      evaluate_rule (\<lambda>r. []) r (attrs_of (Some [(''plan'', PStr ''pro''), (''seats'', PInt 5)]))
        = Inr False"
    by (simp add: defs)
  with is_on_first_match[OF lm known, of "\<lambda>r. []" 1000000
      "Some [(''plan'', PStr ''pro''), (''seats'', PInt 5)]"]
  have "fst (is_on (\<lambda>r. []) 1000000 scoring_client ''beta_scoring''
      (Some [(''plan'', PStr ''pro''), (''seats'', PInt 5)])) = Inr (PBool (enabled scoring_flag))"
    by blast
  then have r5: "fst (is_on (\<lambda>r. []) 1000000 scoring_client ''beta_scoring''
      (Some [(''plan'', PStr ''pro''), (''seats'', PInt 5)])) = Inr (PBool False)"
    by (simp add: scoring_flag_def)
  have "attrs_of None = []" by (simp add: attrs_of_def)
  with is_on_first_match[OF lm known, of "\<lambda>r. []" 1000000 None]
  have "fst (is_on (\<lambda>r. []) 1000000 scoring_client ''beta_scoring'' None)
      = Inr (PBool (enabled scoring_flag))"
    by blast
  then have r6: "fst (is_on (\<lambda>r. []) 1000000 scoring_client ''beta_scoring'' None)
      = Inr (PBool False)"
    by (simp add: scoring_flag_def)
  from r1 r2 r3 r4 r5 r6 show ?thesis by blast
qed


section \<open>Properties of the variant assignment\<close>

lemma experiment_bucket_less: "experiment_bucket k user_id < 100"
  by (simp add: experiment_bucket_def)

text \<open>
  C5: \<open>get_experiment_variant\<close> is a function of the key, the user id and the status,
  traffic percentage and variations of the experiment registered under the key: two
  calls on clients that agree on these (whatever else the clients hold, and whatever
  attributes are passed) return the same result, which is derived from the MD5 hash of
  \<open>key + ":" + user_id\<close> alone; and a result other than null is returned only for an
  experiment whose status is running.
\<close>

theorem get_experiment_variant_deterministic:
  "(local_mode c = local_mode c' \<and> experiment_view c k = experiment_view c' k
      \<longrightarrow> get_experiment_variant rnd c k user_id attributes
          = get_experiment_variant rnd c' k user_id attributes')
   \<and> (get_experiment_variant rnd c k user_id attributes = Inr v \<and> v \<noteq> PNone
      \<longrightarrow> (\<exists>ex. map_of (experiments c) k = Some ex \<and> exp_status ex = RUNNING))"
proof -
  have "get_experiment_variant rnd c k user_id attributes
          = get_experiment_variant rnd c' k user_id attributes'"
    if "local_mode c = local_mode c'" and "experiment_view c k = experiment_view c' k"
    using that
    by (cases "map_of (experiments c) k"; cases "map_of (experiments c') k")
       (auto simp: get_experiment_variant_def experiment_view_def Let_def
          split: sum.splits option.splits)
  moreover have "\<exists>ex. map_of (experiments c) k = Some ex \<and> exp_status ex = RUNNING"
    if "get_experiment_variant rnd c k user_id attributes = Inr v" and "v \<noteq> PNone"
    using that
    by (cases "map_of (experiments c) k")
       (auto simp: get_experiment_variant_def split: if_splits)
  ultimately show ?thesis by blast
qed

theorem get_experiment_variant_deterministic_witness:
  "get_experiment_variant (\<lambda>x. x) (subject_line_client 50) ''exp1'' ''user-42'' None
     = get_experiment_variant (\<lambda>x. x)
         ((subject_line_client 50)\<lparr>features := features scoring_client,
            evaluation_log := [\<lparr>log_timestamp = 7, feature_key = ''beta_scoring'',
              logged_value = PBool False, logged_attributes = None\<rparr>]\<rparr>)
         ''exp1'' ''user-42'' (Some [(''plan'', PStr ''pro'')])"
proof -
  have "local_mode (subject_line_client 50)
          = local_mode ((subject_line_client 50)\<lparr>features := features scoring_client,
              evaluation_log := [\<lparr>log_timestamp = 7, feature_key = ''beta_scoring'',
                logged_value = PBool False, logged_attributes = None\<rparr>]\<rparr>)
        \<and> experiment_view (subject_line_client 50) ''exp1''
          = experiment_view ((subject_line_client 50)\<lparr>features := features scoring_client,
              evaluation_log := [\<lparr>log_timestamp = 7, feature_key = ''beta_scoring'',
                logged_value = PBool False, logged_attributes = None\<rparr>]\<rparr>) ''exp1''"
    by (simp add: experiment_view_def)
  with get_experiment_variant_deterministic show ?thesis by blast
qed

lemma find_map_index:
  "find P (map f xs) = map_option f (find (\<lambda>x. P (f x)) xs)"
  by (induction xs) simp_all

lemma cumulative_weight_Cons:
  "cumulative_weight rnd acc (v # vs) 0 = py_add rnd acc (weight_of v)"
  "cumulative_weight rnd acc (v # vs) (Suc i) =
     (case py_add rnd acc (weight_of v) of
        Inl e \<Rightarrow> Inl e
      | Inr acc' \<Rightarrow> cumulative_weight rnd acc' vs i)"
  by (simp_all add: cumulative_weight_def split: sum.splits)

lemma assign_variation_find:
  "assign_variation rnd vs acc nb =
     (case find (decisive rnd acc vs nb) [0..<length vs] of
        Some i \<Rightarrow> map_sum id Some (decided rnd acc vs nb i)
      | None \<Rightarrow> Inr None)"
proof (induction vs arbitrary: acc)
  case Nil
  then show ?case by simp
next
  case (Cons v vs)
  have upt: "[0..<length (v # vs)] = 0 # map Suc [0..<length vs]"
    by (simp add: upt_conv_Cons map_Suc_upt del: upt_Suc)
  show ?case
  proof (cases "py_add rnd acc (weight_of v)")
    case (Inl e)
    then show ?thesis
      unfolding upt
      by (simp add: decisive_def decided_def cumulative_weight_Cons weight_of_def)
  next
    case (Inr acc')
    show ?thesis
    proof (cases "py_lt (PFloat nb) acc'")
      case (Inl e)
      with Inr show ?thesis
        unfolding upt
        by (simp add: decisive_def decided_def cumulative_weight_Cons weight_of_def)
    next
      case below: (Inr b)
      show ?thesis
      proof (cases b)
        case True
        with Inr below show ?thesis
          unfolding upt
          by (simp add: decisive_def decided_def cumulative_weight_Cons weight_of_def)
      next
        case False
        have later: "decisive rnd acc (v # vs) nb (Suc i) = decisive rnd acc' vs nb i"
          "decided rnd acc (v # vs) nb (Suc i) = decided rnd acc' vs nb i" for i
          using Inr
          by (auto simp: decisive_def decided_def cumulative_weight_Cons split: sum.splits)
        have "assign_variation rnd (v # vs) acc nb = assign_variation rnd vs acc' nb"
          using Inr below False by (simp add: weight_of_def)
        also have "\<dots> = (case find (decisive rnd acc' vs nb) [0..<length vs] of
              Some i \<Rightarrow> map_sum id Some (decided rnd acc' vs nb i)
            | None \<Rightarrow> Inr None)"
          by (rule Cons.IH)
        also have "\<dots> = (case find (decisive rnd acc (v # vs) nb) [0..<length (v # vs)] of
              Some i \<Rightarrow> map_sum id Some (decided rnd acc (v # vs) nb i)
            | None \<Rightarrow> Inr None)"
        proof -
          have first: "\<not> decisive rnd acc (v # vs) nb 0"
            using Inr below False by (simp add: decisive_def cumulative_weight_Cons)
          show ?thesis
            unfolding upt
            by (simp add: first find_map_index later split: option.splits)
        qed
        finally show ?thesis .
      qed
    qed
  qed
qed

lemma assign_variation_some_key:
  "assign_variation rnd vs acc nb = Inr (Some x) \<Longrightarrow> x \<in> (\<lambda>v. dict_get v ''key'') ` set vs"
proof (induction vs arbitrary: acc)
  case Nil
  then show ?case by simp
next
  case (Cons v vs)
  then show ?case
    by (auto split: sum.splits bool.splits)
qed

text \<open>
  C6, as stated, fails: null is returned for buckets below the traffic percentage too,
  when the chosen variation has no \<open>key\<close> entry. The experiment of \<open>pricing_client\<close> is
  what \<open>create_experiment\<close> and \<open>start_experiment\<close> register for the one variation
  \<open>{"name": "Annual", "weight": 100}\<close> at 100 percent traffic; every bucket is below 100,
  and the assignment of every user is null (on this input with any rounding: the one
  variation is returned by the walk or by the fallback).
\<close>

theorem get_experiment_variant_null_counterexample:
  "start_experiment 5
     (create_experiment 0 (new_client 0 True) ''pricing_test'' ''Pricing''
        [[(''name'', PStr ''Annual''), (''weight'', PInt 100)]] 100)
     ''pricing_test'' = Inr pricing_client
   \<and> real (experiment_bucket ''pricing_test'' ''user-42'') < 100
   \<and> get_experiment_variant (\<lambda>x. x) pricing_client ''pricing_test'' ''user-42'' None
       = Inr PNone"
proof -
  have reach: "start_experiment 5
     (create_experiment 0 (new_client 0 True) ''pricing_test'' ''Pricing''
        [[(''name'', PStr ''Annual''), (''weight'', PInt 100)]] 100)
     ''pricing_test'' = Inr pricing_client"
    by (simp add: start_experiment_def create_experiment_def new_client_def
        pricing_client_def init_default_features_def dict_get_default_def)
  have less: "real (experiment_bucket ''pricing_test'' ''user-42'') < 100"
    using experiment_bucket_less[of "''pricing_test''" "''user-42''"] by simp
  have "get_experiment_variant (\<lambda>x. x) pricing_client ''pricing_test'' ''user-42'' None
      = Inr PNone"
    using less
    by (simp add: get_experiment_variant_def pricing_client_def init_default_features_def
        dict_get_default_def dict_get_def py_add_def Let_def split: sum.splits bool.splits)
  with reach less show ?thesis by blast
qed

text \<open>
  C6, amended: for a running experiment, \<open>get_experiment_variant\<close> computes
  \<open>bucket = md5(key + ":" + user_id) mod 100\<close> and returns null when
  \<open>bucket \<ge> traffic_percent\<close>; otherwise, with \<open>normalized = bucket / traffic_percent * 100\<close>
  computed in float arithmetic, it walks the variations accumulating their weights (50
  for a variation without one) and returns the \<open>key\<close> entry of the first variation whose
  cumulative weight exceeds \<open>normalized\<close>, falling back to the \<open>key\<close> entry of the last
  variation if no cumulative weight does, and raising TypeError if it comes to a weight
  that is not a number before it returns. The entry returned is null when the variation
  has none, and the result is null when there are no variations; for an experiment with
  at least one variation, each with a \<open>key\<close> that is not null, null is returned
  exactly when \<open>bucket \<ge> traffic_percent\<close>.
\<close>

theorem get_experiment_variant_assignment:
  assumes "local_mode c" and "map_of (experiments c) k = Some ex"
    and "exp_status ex = RUNNING"
  shows "get_experiment_variant rnd c k user_id attributes =
           (let bucket = md5_int (k @ '':'' @ user_id) mod 100
            in if traffic_percent ex \<le> real bucket then Inr PNone
               else described_assignment rnd (variations ex)
                      (float_mul rnd (float_div rnd (real bucket) (traffic_percent ex)) 100))
       \<and> (variations ex \<noteq> []
            \<and> (\<forall>v \<in> set (variations ex). dict_get v ''key'' \<noteq> PNone)
          \<longrightarrow> (get_experiment_variant rnd c k user_id attributes = Inr PNone
                \<longleftrightarrow> traffic_percent ex \<le> real (md5_int (k @ '':'' @ user_id) mod 100)))"
proof -
  let ?bucket = "experiment_bucket k user_id"
  let ?nb = "float_mul rnd (float_div rnd (real ?bucket) (traffic_percent ex)) 100"
  let ?vs = "variations ex"
  have walk: "(case assign_variation rnd ?vs (PInt 0) ?nb of
          Inl e \<Rightarrow> Inl e
        | Inr (Some v) \<Rightarrow> Inr v
        | Inr None \<Rightarrow> Inr (if ?vs \<noteq> [] then dict_get (last ?vs) ''key'' else PNone))
      = described_assignment rnd ?vs ?nb"
  proof (cases "find (decisive rnd (PInt 0) ?vs ?nb) [0..<length ?vs]")
    case None
    then show ?thesis
      by (simp add: assign_variation_find described_assignment_def)
  next
    case (Some i)
    show ?thesis
    proof (cases "decided rnd (PInt 0) ?vs ?nb i")
      case (Inl e)
      with Some show ?thesis
        by (simp add: assign_variation_find described_assignment_def)
    next
      case (Inr v)
      with Some show ?thesis
        by (simp add: assign_variation_find described_assignment_def)
    qed
  qed
  have eq: "get_experiment_variant rnd c k user_id attributes =
      (if traffic_percent ex \<le> real ?bucket then Inr PNone
       else described_assignment rnd ?vs ?nb)"
    using assms walk by (simp add: get_experiment_variant_def Let_def)
  have keyed: "get_experiment_variant rnd c k user_id attributes \<noteq> Inr PNone"
    if inside: "\<not> traffic_percent ex \<le> real ?bucket" and nonempty: "?vs \<noteq> []"
      and wf: "\<forall>v \<in> set ?vs. dict_get v ''key'' \<noteq> PNone"
  proof (cases "assign_variation rnd ?vs (PInt 0) ?nb")
    case (Inl e)
    with assms inside show ?thesis
      by (simp add: get_experiment_variant_def Let_def)
  next
    case (Inr r)
    from nonempty have "last ?vs \<in> set ?vs" by simp
    with wf have lastkey: "dict_get (last ?vs) ''key'' \<noteq> PNone" by simp
    show ?thesis
    proof (cases r)
      case None
      with Inr assms inside nonempty lastkey show ?thesis
        by (simp add: get_experiment_variant_def Let_def)
    next
      case (Some x)
      with Inr assign_variation_some_key[of rnd ?vs "PInt 0" ?nb x] wf have "x \<noteq> PNone"
        by auto
      with Some Inr assms inside show ?thesis
        by (simp add: get_experiment_variant_def Let_def)
    qed
  qed
  have "get_experiment_variant rnd c k user_id attributes = Inr PNone
      \<longleftrightarrow> traffic_percent ex \<le> real ?bucket"
    if "?vs \<noteq> []" and "\<forall>v \<in> set ?vs. dict_get v ''key'' \<noteq> PNone"
    using keyed[OF _ that] eq by auto
  with eq show ?thesis by (simp add: experiment_bucket_def Let_def)
qed

theorem get_experiment_variant_assignment_witness:
  "get_experiment_variant (\<lambda>x. x) (subject_line_client 100) ''exp1'' ''user-42'' None
     = Inr (PStr ''treatment'')
   \<and> get_experiment_variant (\<lambda>x. x) (subject_line_client 50) ''exp1'' ''user-42'' None
     = Inr PNone"
proof -
  have lm: "local_mode (subject_line_client tp)" for tp
    by (simp add: subject_line_client_def)
  have known: "map_of (experiments (subject_line_client tp)) ''exp1'' =
      Some (subject_line_experiment tp)" for tp
    by (simp add: subject_line_client_def)
  have running: "exp_status (subject_line_experiment tp) = RUNNING" for tp
    by (simp add: subject_line_experiment_def)
  have fields: "variations (subject_line_experiment tp) = default_variations"
      "traffic_percent (subject_line_experiment tp) = tp" for tp
    by (simp_all add: subject_line_experiment_def)
  have bucket: "md5_int (''exp1'' @ '':'' @ ''user-42'') mod 100 = 71"
    using experiment_bucket_scenario by (simp add: experiment_bucket_def)
  have keyed: "default_variations \<noteq> []
      \<and> (\<forall>v \<in> set default_variations. dict_get v ''key'' \<noteq> PNone)"
    by (simp add: default_variations_def dict_get_def)
  have treatment: "described_assignment (\<lambda>x. x) default_variations
      (float_mul (\<lambda>x. x) (float_div (\<lambda>x. x) (real 71) 100) 100) = Inr (PStr ''treatment'')"
    by (simp add: described_assignment_def decisive_def decided_def default_variations_def
        cumulative_weight_def weight_of_def dict_get_default_def dict_get_def py_add_def
        float_mul_def float_div_def fl_def upt_0_numeral_Cons upt_1_numeral_Cons)
  from get_experiment_variant_assignment[of "subject_line_client 100" "''exp1''"
      "subject_line_experiment 100" "\<lambda>x. x" "''user-42''" None, OF lm known running]
  have full: "get_experiment_variant (\<lambda>x. x) (subject_line_client 100) ''exp1'' ''user-42''
      None = Inr (PStr ''treatment'')"
    unfolding Let_def fields bucket using treatment by simp
  from get_experiment_variant_assignment[of "subject_line_client 50" "''exp1''"
      "subject_line_experiment 50" "\<lambda>x. x" "''user-42''" None, OF lm known running]
  have "default_variations \<noteq> []
      \<and> (\<forall>v \<in> set default_variations. dict_get v ''key'' \<noteq> PNone)
    \<longrightarrow> (get_experiment_variant (\<lambda>x. x) (subject_line_client 50) ''exp1'' ''user-42'' None
          = Inr PNone \<longleftrightarrow> (50 :: real) \<le> real (71 :: nat))"
    unfolding fields bucket by (rule conjunct2)
  with keyed have half: "get_experiment_variant (\<lambda>x. x) (subject_line_client 50) ''exp1''
      ''user-42'' None = Inr PNone"
    by simp
  from full half show ?thesis by blast
qed

section \<open>Properties of the orchestrator\<close>

lemma needs_onboarding_answers:
  "needs_onboarding st = Inr answer \<Longrightarrow> answer = ''onboarding'' \<or> answer = ''reporting''"
  by (auto simp: needs_onboarding_def split: pyval.splits sum.splits bool.splits)

lemma and_then_Inr [simp]: "and_then r Inr = r"
  by (simp add: and_then_def split: sum.splits)

lemma ainvoke_ops:
  "ainvoke (Suc (Suc n)) (build_graph float_repr store) ''ops'' st = ops_self_heal st"
  by (simp add: build_graph_def END_def)

lemma ainvoke_reporting:
  "ainvoke (Suc (Suc (Suc n))) (build_graph float_repr store) ''reporting'' st
     = and_then (reporting_attribution st) ops_self_heal"
  using ainvoke_ops[of n float_repr store]
  by (simp add: build_graph_def END_def cong: sum.case_cong)

lemma ainvoke_onboarding:
  "ainvoke (Suc (Suc (Suc (Suc n)))) (build_graph float_repr store) ''onboarding'' st
     = and_then (onboarding_go_live float_repr st)
         (\<lambda>st. and_then (reporting_attribution st) ops_self_heal)"
  using ainvoke_reporting[of n float_repr store]
  by (simp add: build_graph_def END_def)

lemma ainvoke_hygiene:
  "ainvoke (Suc (Suc (Suc (Suc (Suc n))))) (build_graph float_repr store) ''hygiene'' st
     = and_then (data_hygiene st) (\<lambda>st.
       and_then (needs_onboarding st) (\<lambda>branch.
       and_then (if branch = ''onboarding'' then onboarding_go_live float_repr st else Inr st)
         (\<lambda>st. and_then (reporting_attribution st) ops_self_heal)))"
proof (cases "data_hygiene st")
  case (Inl e)
  then show ?thesis by (simp add: build_graph_def END_def and_then_def)
next
  case (Inr st')
  show ?thesis
  proof (cases "needs_onboarding st'")
    case (Inl e)
    with Inr show ?thesis by (simp add: build_graph_def END_def and_then_def)
  next
    case answer: (Inr answer)
    from needs_onboarding_answers[OF answer] show ?thesis
    proof
      assume "answer = ''onboarding''"
      with Inr answer ainvoke_onboarding[of n float_repr store st'] show ?thesis
        by (simp add: build_graph_def END_def and_then_def)
    next
      assume "answer = ''reporting''"
      with Inr answer ainvoke_reporting[of "Suc n" float_repr store st'] show ?thesis
        by (simp add: build_graph_def END_def and_then_def)
    qed
  qed
qed

lemma ainvoke_lifecycle:
  "ainvoke (Suc n) (build_graph float_repr store) ''lifecycle'' st
     = and_then (lifecycle_enforcement float_repr store st)
         (ainvoke n (build_graph float_repr store) ''hygiene'')"
  by (simp add: build_graph_def END_def cong: sum.case_cong)

lemma ainvoke_routing:
  "ainvoke (Suc n) (build_graph float_repr store) ''routing'' st
     = and_then (routing_sla store st) (ainvoke n (build_graph float_repr store) ''lifecycle'')"
  by (simp add: build_graph_def END_def cong: sum.case_cong)

lemma ainvoke_schema:
  "ainvoke (Suc n) (build_graph float_repr store) ''schema'' st
     = and_then (schema_discovery store st) (ainvoke n (build_graph float_repr store) ''routing'')"
  by (simp add: build_graph_def END_def cong: sum.case_cong)

lemma ainvoke_classify:
  "ainvoke (Suc n) (build_graph float_repr store) ''classify'' st
     = and_then (classify_event st) (ainvoke n (build_graph float_repr store) ''schema'')"
  by (simp add: build_graph_def END_def cong: sum.case_cong)

lemma ainvoke_build_graph:
  "ainvoke recursion_limit (build_graph float_repr store) ''classify'' initial
     = run_sequential float_repr store initial"
proof -
  have limit: "recursion_limit = Suc (Suc (Suc (Suc (Suc (Suc (Suc (Suc (Suc 16))))))))"
    by (simp add: recursion_limit_def)
  have hygiene: "ainvoke (Suc (Suc (Suc (Suc (Suc 16))))) (build_graph float_repr store) ''hygiene''
      = (\<lambda>st. and_then (data_hygiene st) (\<lambda>st.
          and_then (needs_onboarding st) (\<lambda>branch.
          and_then (if branch = ''onboarding'' then onboarding_go_live float_repr st else Inr st)
            (\<lambda>st. and_then (reporting_attribution st) ops_self_heal))))"
    by (rule ext) (rule ainvoke_hygiene)
  show ?thesis
    unfolding limit ainvoke_classify ainvoke_schema ainvoke_routing ainvoke_lifecycle hygiene
      run_sequential_def
    by (rule refl)
qed

text \<open>
  C2: for every workspace id, event type and payload, the run of the declared graph and
  the sequential fallback of \<open>handle_event\<close> give the same outcome: the same final state,
  hence the same \<open>decisions\<close> and the same \<open>actions\<close> in the same order, or the same
  exception.
\<close>

theorem handle_event_graph_equals_fallback:
  "handle_event float_repr store True now ws et payload
     = handle_event float_repr store False now ws et payload"
  proof -
  have "entry_point (build_graph float_repr store) = ''classify''"
    by (simp add: build_graph_def)
  then show ?thesis
    by (simp add: handle_event_def ainvoke_build_graph)
qed

lemma classify_category:
  "event_category et payload \<in>
     PStr ` {''deal_stage_changed'', ''lead_created_or_updated'', ''qa_updated'', ''go_live'',
             ''scheduled_digest'', ''scheduled_hygiene'', ''unknown''}"
  by (simp add: event_category_def classify_def dict_get_def Let_def)

lemma classify_no_actions: "decision_actions (classify et payload) = []"
  by (simp add: decision_actions_def classify_def dict_get_default_def Let_def)

lemma classify_truthy: "classify et payload \<noteq> []"
  by (simp add: classify_def Let_def)

lemma needs_onboarding_classified:
  assumes "map_of (decisions st) ''event'' = Some (PDict (classify et payload))"
  shows "needs_onboarding st =
           Inr (if event_category et payload \<in> onboarding_categories
                then ''onboarding'' else ''reporting'')"
proof -
  obtain c where c: "event_category et payload = PStr c"
    using classify_category[of et payload] by auto
  then have "dict_get (classify et payload) ''category'' = PStr c"
    by (simp add: event_category_def)
  with assms c show ?thesis
    by (auto simp: needs_onboarding_def dict_get_default_def in_str_set_def
        onboarding_categories_def)
qed


lemma and_then_InrD:
  "and_then r f = Inr y \<Longrightarrow> \<exists>x. r = Inr x \<and> f x = Inr y"
  by (cases r) (simp_all add: and_then_def)

lemma after_stages_initial: "after_stages now ws et payload [] (initial_state now ws et payload)"
  by (simp add: after_stages_def initial_state_def)

lemma after_stages_classify:
  assumes "after_stages now ws et payload [] st" and "classify_event st = Inr st'"
  shows "after_stages now ws et payload [''event''] st'"
  using assms by (auto simp: after_stages_def classify_event_def)

lemma after_stages_record:
  assumes "after_stages now ws et payload ks st" and "ks \<noteq> []" and "stage \<notin> set ks"
    and "stage \<noteq> ''event''"
  shows "after_stages now ws et payload (ks @ [stage]) (record_decision st stage decision)"
  using assms
  by (auto simp: after_stages_def record_decision_def update_keys update_conv')

lemma schema_discovery_records:
  "schema_discovery store st = Inr st' \<Longrightarrow>
     \<exists>d. st' = record_decision st ''schema'' d \<and> map_of store (workspace_id st) \<noteq> None"
  by (auto simp: schema_discovery_def ensure_workspace_schema_def load_def
      split: sum.splits option.splits)

lemma routing_sla_records:
  "routing_sla store st = Inr st' \<Longrightarrow> \<exists>d. st' = record_decision st ''routing'' d"
  by (auto simp: routing_sla_def split: sum.splits)

lemma lifecycle_enforcement_records:
  "lifecycle_enforcement float_repr store st = Inr st' \<Longrightarrow>
     \<exists>d. st' = record_decision st ''lifecycle'' d"
  by (auto simp: lifecycle_enforcement_def split: sum.splits)

lemma data_hygiene_records:
  "data_hygiene st = Inr st' \<Longrightarrow> \<exists>d. st' = record_decision st ''hygiene'' d"
  by (auto simp: data_hygiene_def split: sum.splits)

lemma run_sequential_result:
  assumes run: "run_sequential float_repr store (initial_state now ws et payload) = Inr st"
  shows "after_stages now ws et payload
           (if event_category et payload \<in> onboarding_categories
            then stages_with_onboarding else stages_without_onboarding) st
         \<and> map_of store ws \<noteq> None
         \<and> map_of (decisions st) ''ops'' = Some (PDict [(''actions'', PList [])])"
proof -
  let ?P = "after_stages now ws et payload"
  from run obtain s1 s2 s3 s4 s5 branch s6 s7 where
    s1: "classify_event (initial_state now ws et payload) = Inr s1" and
    s2: "schema_discovery store s1 = Inr s2" and
    s3: "routing_sla store s2 = Inr s3" and
    s4: "lifecycle_enforcement float_repr store s3 = Inr s4" and
    s5: "data_hygiene s4 = Inr s5" and
    br: "needs_onboarding s5 = Inr branch" and
    s6: "(if branch = ''onboarding'' then onboarding_go_live float_repr s5 else Inr s5) = Inr s6" and
    s7: "reporting_attribution s6 = Inr s7" and
    s8: "ops_self_heal s7 = Inr st"
    unfolding run_sequential_def by (blast dest!: and_then_InrD)
  have p1: "?P [''event''] s1"
    by (rule after_stages_classify[OF after_stages_initial s1])
  from schema_discovery_records[OF s2] obtain d2 where
    d2: "s2 = record_decision s1 ''schema'' d2" and known: "map_of store (workspace_id s1) \<noteq> None"
    by blast
  have p2: "?P [''event'', ''schema''] s2"
    unfolding d2 using after_stages_record[OF p1, of "''schema''"] by simp
  from routing_sla_records[OF s3] obtain d3 where d3: "s3 = record_decision s2 ''routing'' d3"
    by blast
  have p3: "?P [''event'', ''schema'', ''routing''] s3"
    unfolding d3 using after_stages_record[OF p2, of "''routing''"] by simp
  from lifecycle_enforcement_records[OF s4] obtain d4 where
    d4: "s4 = record_decision s3 ''lifecycle'' d4" by blast
  have p4: "?P [''event'', ''schema'', ''routing'', ''lifecycle''] s4"
    unfolding d4 using after_stages_record[OF p3, of "''lifecycle''"] by simp
  from data_hygiene_records[OF s5] obtain d5 where d5: "s5 = record_decision s4 ''hygiene'' d5"
    by blast
  have p5: "?P [''event'', ''schema'', ''routing'', ''lifecycle'', ''hygiene''] s5"
    unfolding d5 using after_stages_record[OF p4, of "''hygiene''"] by simp
  from p5 have ev: "map_of (decisions s5) ''event'' = Some (PDict (classify et payload))"
    by (simp add: after_stages_def)
  from needs_onboarding_classified[OF ev] br have branch:
    "branch = (if event_category et payload \<in> onboarding_categories
               then ''onboarding'' else ''reporting'')"
    by simp
  have p7: "?P (if event_category et payload \<in> onboarding_categories
                then stages_with_onboarding else stages_without_onboarding) st \<and> map_of (decisions st) ''ops'' = Some (PDict [(''actions'', PList [])])"
  proof (cases "event_category et payload \<in> onboarding_categories")
    case True
    with branch s6 have "s6 = record_decision s5 ''onboarding''
        (onboarding_evaluate float_repr (workspace_id s5) (event_payload s5))"
      by (simp add: onboarding_go_live_def)
    with after_stages_record[OF p5, of "''onboarding''"] have p6:
      "?P [''event'', ''schema'', ''routing'', ''lifecycle'', ''hygiene'', ''onboarding''] s6"
      by simp
    from s7 have "s7 = record_decision s6 ''reporting''
        (reporting_evaluate (workspace_id s6) (event_type s6) (event_payload s6))"
      by (simp add: reporting_attribution_def)
    with after_stages_record[OF p6, of "''reporting''"] have p7:
      "?P [''event'', ''schema'', ''routing'', ''lifecycle'', ''hygiene'', ''onboarding'',
           ''reporting''] s7"
      by simp
    then have noerr: "errors s7 = []" by (simp add: after_stages_def)
    from s8 have st: "st = record_decision s7 ''ops''
        (ops_evaluate (workspace_id s7) (decisions s7) (actions s7) (errors s7))"
      by (simp add: ops_self_heal_def)
    with after_stages_record[OF p7, of "''ops''"] have "?P stages_with_onboarding st"
      by (simp add: stages_with_onboarding_def)
    moreover have "map_of (decisions st) ''ops'' = Some (PDict [(''actions'', PList [])])"
      unfolding st using noerr by (simp add: record_decision_def update_conv' ops_evaluate_def)
    ultimately show ?thesis using True by simp
  next
    case False
    with branch s6 have s6eq: "s6 = s5" by simp
    from s7 have "s7 = record_decision s6 ''reporting''
        (reporting_evaluate (workspace_id s6) (event_type s6) (event_payload s6))"
      by (simp add: reporting_attribution_def)
    with after_stages_record[OF p5, of "''reporting''"] s6eq have p7:
      "?P [''event'', ''schema'', ''routing'', ''lifecycle'', ''hygiene'', ''reporting''] s7"
      by simp
    then have noerr: "errors s7 = []" by (simp add: after_stages_def)
    from s8 have st: "st = record_decision s7 ''ops''
        (ops_evaluate (workspace_id s7) (decisions s7) (actions s7) (errors s7))"
      by (simp add: ops_self_heal_def)
    with after_stages_record[OF p7, of "''ops''"] have "?P stages_without_onboarding st"
      by (simp add: stages_without_onboarding_def)
    moreover have "map_of (decisions st) ''ops'' = Some (PDict [(''actions'', PList [])])"
      unfolding st using noerr by (simp add: record_decision_def update_conv' ops_evaluate_def)
    ultimately show ?thesis using False by simp
  qed
  from p1 known have "map_of store ws \<noteq> None" by (simp add: after_stages_def)
  with p7 show ?thesis by simp
qed

lemma ensure_workspace_schema_returns:
  "map_of store ws = Some cfg \<Longrightarrow> \<exists>d. ensure_workspace_schema store ws = Inr d"
  by (simp add: ensure_workspace_schema_def load_def Let_def)

lemma routing_evaluate_returns:
  assumes "map_of store ws = Some cfg"
    and "map_of decs ''event'' = Some (PDict (classify et payload'))"
    and "py_int (py_or (dict_get payload ''icp_score'') (PInt 0)) = Inr i"
  shows "\<exists>d. routing_evaluate store ws decs payload = Inr d"
proof -
  obtain c where c: "event_category et payload' = PStr c"
    using classify_category[of et payload'] by auto
  have ev: "py_or (dict_get decs ''event'') (PDict []) = PDict (classify et payload')"
    using assms(2) classify_truthy[of et payload'] by (simp add: py_or_def dict_get_def)
  have "\<exists>b. in_str_set (dict_get (classify et payload') ''category'')
            [''lead_created_or_updated'', ''unknown''] = Inr b"
    using c by (simp add: event_category_def in_str_set_def)
  then obtain b where "in_str_set (dict_get (classify et payload') ''category'')
            [''lead_created_or_updated'', ''unknown''] = Inr b" ..
  with assms(1,3) ev show ?thesis
    by (cases b) (simp_all add: routing_evaluate_def load_def Let_def)
qed

lemma missing_fields_returns:
  "list_all is_str fs \<Longrightarrow> \<exists>ms. missing_fields payload fs = Inr ms"
proof (induction fs)
  case Nil
  then show ?case by simp
next
  case (Cons f fs)
  then obtain s where "f = PStr s" by (cases f) simp_all
  with Cons show ?case by (auto simp: dict_get_val_def)
qed

lemma field_table_lookup:
  assumes "field_table (PDict table)"
  shows "\<exists>fs. dict_get_default table stage (PList []) = PList fs \<and> list_all is_str fs"
proof (cases "map_of table stage")
  case None
  then show ?thesis by (simp add: dict_get_default_def)
next
  case (Some v)
  then have "(stage, v) \<in> set table" by (rule map_of_SomeD)
  with assms have "case v of PList fs \<Rightarrow> list_all is_str fs | _ \<Rightarrow> False"
    by (auto simp: field_table_def list_all_iff)
  with Some show ?thesis by (cases v) (simp_all add: dict_get_default_def)
qed

lemma lifecycle_evaluate_returns:
  assumes "map_of store ws = Some cfg"
    and "field_table (dict_get_default (thresholds cfg) ''definition_of_done''
           default_definition_of_done)"
  shows "\<exists>d. lifecycle_evaluate float_repr store ws payload = Inr d"
proof -
  from assms(2) obtain table where table:
    "dict_get_default (thresholds cfg) ''definition_of_done'' default_definition_of_done
       = PDict table"
    by (auto simp: field_table_def split: pyval.splits)
  let ?stage = "py_lower (py_str float_repr
                   (py_or (py_or (dict_get payload ''stage'')
                                 (dict_get payload ''lifecycle_stage'')) (PStr [])))"
  from assms(2) table obtain fs where fs:
    "dict_get_default table ?stage (PList []) = PList fs" "list_all is_str fs"
    using field_table_lookup[of table ?stage] by auto
  from missing_fields_returns[OF fs(2)] obtain ms where
    "missing_fields payload fs = Inr ms" ..
  with assms(1) table fs(1) show ?thesis
    by (simp add: lifecycle_evaluate_def load_def Let_def)
qed

lemma stripped_lower_returns:
  "str_or_falsy (dict_get payload k) \<Longrightarrow> \<exists>s. stripped_lower payload k = Inr s"
  by (cases "dict_get payload k")
     (auto simp: stripped_lower_def str_or_falsy_def py_or_def)

lemma hygiene_evaluate_returns:
  assumes "str_or_falsy (dict_get payload ''email'')"
    and "str_or_falsy (dict_get payload ''domain'')"
  shows "\<exists>d. hygiene_evaluate ws payload = Inr d"
proof -
  from stripped_lower_returns[OF assms(1)] obtain email where
    "stripped_lower payload ''email'' = Inr email" ..
  moreover from stripped_lower_returns[OF assms(2)] obtain domain where
    "stripped_lower payload ''domain'' = Inr domain" ..
  ultimately show ?thesis by (simp add: hygiene_evaluate_def Let_def)
qed

lemma run_sequential_returns:
  assumes known: "map_of store ws = Some cfg" and typed: "well_typed_event cfg payload"
  shows "\<exists>st. run_sequential float_repr store (initial_state now ws et payload) = Inr st"
proof -
  let ?P = "after_stages now ws et payload"
  let ?s0 = "initial_state now ws et payload"
  obtain s1 where s1: "classify_event ?s0 = Inr s1" by (simp add: classify_event_def)
  have p1: "?P [''event''] s1"
    by (rule after_stages_classify[OF after_stages_initial s1])
  then have w1: "workspace_id s1 = ws" by (simp add: after_stages_def)
  from ensure_workspace_schema_returns[OF known] w1 obtain s2 where
    s2: "schema_discovery store s1 = Inr s2"
    by (auto simp: schema_discovery_def)
  from schema_discovery_records[OF s2] after_stages_record[OF p1, of "''schema''"]
  have p2: "?P [''event'', ''schema''] s2" by auto
  from typed obtain i where
    icp: "py_int (py_or (dict_get payload ''icp_score'') (PInt 0)) = Inr i"
    by (auto simp: well_typed_event_def split: sum.splits)
  from p2 have f2: "workspace_id s2 = ws" "event_payload s2 = payload"
      "map_of (decisions s2) ''event'' = Some (PDict (classify et payload))"
    by (simp_all add: after_stages_def)
  from routing_evaluate_returns[OF known f2(3) icp] f2 obtain s3 where
    s3: "routing_sla store s2 = Inr s3"
    by (auto simp: routing_sla_def)
  from routing_sla_records[OF s3] after_stages_record[OF p2, of "''routing''"]
  have p3: "?P [''event'', ''schema'', ''routing''] s3" by auto
  then have f3: "workspace_id s3 = ws" "event_payload s3 = payload"
    by (simp_all add: after_stages_def)
  from typed have table: "field_table (dict_get_default (thresholds cfg) ''definition_of_done''
      default_definition_of_done)"
    by (simp add: well_typed_event_def)
  from lifecycle_evaluate_returns[OF known table, of float_repr payload] f3 obtain s4 where
    s4: "lifecycle_enforcement float_repr store s3 = Inr s4"
    by (auto simp: lifecycle_enforcement_def)
  from lifecycle_enforcement_records[OF s4] after_stages_record[OF p3, of "''lifecycle''"]
  have p4: "?P [''event'', ''schema'', ''routing'', ''lifecycle''] s4" by auto
  then have f4: "workspace_id s4 = ws" "event_payload s4 = payload"
    by (simp_all add: after_stages_def)
  from typed have "str_or_falsy (dict_get payload ''email'')"
      "str_or_falsy (dict_get payload ''domain'')"
    by (simp_all add: well_typed_event_def)
  from hygiene_evaluate_returns[OF this, of ws] f4 obtain s5 where
    s5: "data_hygiene s4 = Inr s5"
    by (auto simp: data_hygiene_def)
  from data_hygiene_records[OF s5] after_stages_record[OF p4, of "''hygiene''"]
  have p5: "?P [''event'', ''schema'', ''routing'', ''lifecycle'', ''hygiene''] s5" by auto
  then have ev: "map_of (decisions s5) ''event'' = Some (PDict (classify et payload))"
    by (simp add: after_stages_def)
  note branch = needs_onboarding_classified[OF ev]
  show ?thesis
    unfolding run_sequential_def
    by (simp add: s1 s2 s3 s4 s5 branch and_then_def onboarding_go_live_def
        reporting_attribution_def ops_self_heal_def)
qed

lemma handle_event_sequential:
  "handle_event float_repr store graph_available now ws et payload
     = run_sequential float_repr store (initial_state now ws et payload)"
proof -
  have "entry_point (build_graph float_repr store) = ''classify''"
    by (simp add: build_graph_def)
  then show ?thesis by (simp add: handle_event_def Let_def ainvoke_build_graph)
qed

lemma run_sequential_missing_workspace:
  "map_of store ws = None \<Longrightarrow>
     run_sequential float_repr store (initial_state now ws et payload) = Inl (KeyError ws)"
  by (simp add: run_sequential_def and_then_def classify_event_def schema_discovery_def
      ensure_workspace_schema_def load_def initial_state_def)

lemma classify_lead_created:
  "event_category ''lead_created'' payload = PStr ''lead_created_or_updated''"
  by (simp add: event_category_def classify_def dict_get_def Let_def py_lower_def
      py_strip_def lower_char_def is_space_def)

lemma classify_deal_stage_changed:
  "event_category ''deal_stage_changed'' payload = PStr ''deal_stage_changed''"
  by (simp add: event_category_def classify_def dict_get_def Let_def py_lower_def
      py_strip_def lower_char_def is_space_def)

lemma acme_well_typed:
  "well_typed_event acme_config [(''stage'', PStr ''poc''), (''deal_id'', PInt 7)]"
  "well_typed_event acme_config [(''email'', PStr ''ann@b.com''), (''icp_score'', PInt 85)]"
  by (simp_all add: well_typed_event_def acme_config_def str_or_falsy_def dict_get_def
      dict_get_default_def py_or_def field_table_def default_definition_of_done_def)

text \<open>
  C1, as stated, fails: no stage failure is caught or recorded. With no workspace
  configured (an empty store, as when the workspaces file does not exist), the schema
  stage's call of the config store raises KeyError and \<open>handle_event\<close> raises it, on the
  fallback path and on the graph path alike, instead of returning a run state.
\<close>

theorem handle_event_raises_counterexample:
  "handle_event (\<lambda>r. []) [] False 0 ''acme'' ''lead_created'' [(''email'', PStr ''ann@b.com'')]
     = Inl (KeyError ''acme'')
   \<and> handle_event (\<lambda>r. []) [] True 0 ''acme'' ''lead_created'' [(''email'', PStr ''ann@b.com'')]
     = Inl (KeyError ''acme'')"
  by (simp add: handle_event_sequential run_sequential_missing_workspace)

lemma run_sequential_schema_raises:
  assumes "ensure_workspace_schema store ws = Inl e"
  shows "run_sequential float_repr store (initial_state now ws et payload) = Inl e"
  using assms
  by (simp add: run_sequential_def and_then_def classify_event_def schema_discovery_def
      initial_state_def)

lemma run_sequential_routing_raises:
  assumes "ensure_workspace_schema store ws = Inr d1"
    and "routing_evaluate store ws
           [(''event'', PDict (classify et payload)), (''schema'', PDict d1)] payload = Inl e"
  shows "run_sequential float_repr store (initial_state now ws et payload) = Inl e"
  using assms
  by (simp add: run_sequential_def and_then_def classify_event_def schema_discovery_def
      routing_sla_def record_decision_def initial_state_def)

lemma run_sequential_lifecycle_raises:
  assumes "ensure_workspace_schema store ws = Inr d1"
    and "routing_evaluate store ws
           [(''event'', PDict (classify et payload)), (''schema'', PDict d1)] payload = Inr d2"
    and "lifecycle_evaluate float_repr store ws payload = Inl e"
  shows "run_sequential float_repr store (initial_state now ws et payload) = Inl e"
  using assms
  by (simp add: run_sequential_def and_then_def classify_event_def schema_discovery_def
      routing_sla_def lifecycle_enforcement_def record_decision_def initial_state_def)

lemma run_sequential_hygiene_raises:
  assumes "ensure_workspace_schema store ws = Inr d1"
    and "routing_evaluate store ws
           [(''event'', PDict (classify et payload)), (''schema'', PDict d1)] payload = Inr d2"
    and "lifecycle_evaluate float_repr store ws payload = Inr d3"
    and "hygiene_evaluate ws payload = Inl e"
  shows "run_sequential float_repr store (initial_state now ws et payload) = Inl e"
  using assms
  by (simp add: run_sequential_def and_then_def classify_event_def schema_discovery_def
      routing_sla_def lifecycle_enforcement_def data_hygiene_def record_decision_def
      initial_state_def)

lemma run_sequential_agents_return:
  assumes "ensure_workspace_schema store ws = Inr d1"
    and "routing_evaluate store ws
           [(''event'', PDict (classify et payload)), (''schema'', PDict d1)] payload = Inr d2"
    and "lifecycle_evaluate float_repr store ws payload = Inr d3"
    and "hygiene_evaluate ws payload = Inr d4"
  shows "\<exists>st. run_sequential float_repr store (initial_state now ws et payload) = Inr st"
proof -
  define s1 where
    "s1 = (initial_state now ws et payload)\<lparr>decisions :=
             [(''event'', PDict (classify et payload))]\<rparr>"
  define s2 where "s2 = record_decision s1 ''schema'' d1"
  define s3 where "s3 = record_decision s2 ''routing'' d2"
  define s4 where "s4 = record_decision s3 ''lifecycle'' d3"
  define s5 where "s5 = record_decision s4 ''hygiene'' d4"
  have f1: "workspace_id s1 = ws" "event_payload s1 = payload"
      "decisions s1 = [(''event'', PDict (classify et payload))]"
    by (simp_all add: s1_def initial_state_def)
  have f2: "workspace_id s2 = ws" "event_payload s2 = payload"
      "decisions s2 = [(''event'', PDict (classify et payload)), (''schema'', PDict d1)]"
    by (simp_all add: s2_def record_decision_def f1)
  have f3: "workspace_id s3 = ws" "event_payload s3 = payload"
    by (simp_all add: s3_def record_decision_def f2)
  have f4: "workspace_id s4 = ws" "event_payload s4 = payload"
    by (simp_all add: s4_def record_decision_def f3)
  have "map_of (decisions s5) ''event'' = Some (PDict (classify et payload))"
    by (simp add: s5_def s4_def s3_def record_decision_def f2 update_conv')
  note branch = needs_onboarding_classified[OF this]
  have c1: "classify_event (initial_state now ws et payload) = Inr s1"
    by (simp add: classify_event_def s1_def initial_state_def)
  have c2: "schema_discovery store s1 = Inr s2"
    using assms(1) by (simp add: schema_discovery_def f1 s2_def)
  have c3: "routing_sla store s2 = Inr s3"
    using assms(2) by (simp add: routing_sla_def f2 s3_def)
  have c4: "lifecycle_enforcement float_repr store s3 = Inr s4"
    using assms(3) by (simp add: lifecycle_enforcement_def f3 s4_def)
  have c5: "data_hygiene s4 = Inr s5"
    using assms(4) by (simp add: data_hygiene_def f4 s5_def)
  show ?thesis
    unfolding run_sequential_def
    by (simp add: c1 c2 c3 c4 c5 branch and_then_def onboarding_go_live_def
        reporting_attribution_def ops_self_heal_def)
qed

text \<open>
  C1, amended: \<open>handle_event\<close> has no handling of stage failures: an exception raised by a
  stage propagates to the caller and ends the run, and nothing is ever written to the
  run state's \<open>errors\<close> list. The stages whose agents can raise are the schema, routing,
  lifecycle and hygiene stages: whatever the first of them to raise raises, on the state
  the stages before it have produced, is raised by \<open>handle_event\<close>, on the graph path and
  on the fallback path alike; and when none of the four raises, \<open>handle_event\<close> returns.
  In particular, for a missing workspace the KeyError that the config store raises in
  the schema stage is raised by \<open>handle_event\<close>. When it returns, it returns a fully
  populated run state: the inputs, a decision for every stage from classification to
  self-heal, an empty \<open>errors\<close> list and therefore no alert from the self-heal stage; and
  no stage raises for a configured workspace and a well-typed payload.
\<close>

theorem handle_event_propagates:
  "(map_of store ws = None \<longrightarrow>
      handle_event float_repr store graph_available now ws et payload = Inl (KeyError ws))
   \<and> (\<forall>e. ensure_workspace_schema store ws = Inl e \<longrightarrow>
         handle_event float_repr store graph_available now ws et payload = Inl e)
   \<and> (\<forall>d1 e.
         ensure_workspace_schema store ws = Inr d1
         \<and> routing_evaluate store ws
             [(''event'', PDict (classify et payload)), (''schema'', PDict d1)] payload = Inl e
         \<longrightarrow> handle_event float_repr store graph_available now ws et payload = Inl e)
   \<and> (\<forall>d1 d2 e.
         ensure_workspace_schema store ws = Inr d1
         \<and> routing_evaluate store ws
             [(''event'', PDict (classify et payload)), (''schema'', PDict d1)] payload = Inr d2
         \<and> lifecycle_evaluate float_repr store ws payload = Inl e
         \<longrightarrow> handle_event float_repr store graph_available now ws et payload = Inl e)
   \<and> (\<forall>d1 d2 d3 e.
         ensure_workspace_schema store ws = Inr d1
         \<and> routing_evaluate store ws
             [(''event'', PDict (classify et payload)), (''schema'', PDict d1)] payload = Inr d2
         \<and> lifecycle_evaluate float_repr store ws payload = Inr d3
         \<and> hygiene_evaluate ws payload = Inl e
         \<longrightarrow> handle_event float_repr store graph_available now ws et payload = Inl e)
   \<and> (\<forall>d1 d2 d3 d4.
         ensure_workspace_schema store ws = Inr d1
         \<and> routing_evaluate store ws
             [(''event'', PDict (classify et payload)), (''schema'', PDict d1)] payload = Inr d2
         \<and> lifecycle_evaluate float_repr store ws payload = Inr d3
         \<and> hygiene_evaluate ws payload = Inr d4
         \<longrightarrow> (\<exists>st. handle_event float_repr store graph_available now ws et payload = Inr st))
   \<and> (\<forall>st. handle_event float_repr store graph_available now ws et payload = Inr st \<longrightarrow>
         workspace_id st = ws \<and> event_type st = et \<and> event_payload st = payload
         \<and> timestamp st = now \<and> errors st = []
         \<and> set stages_without_onboarding \<subseteq> fst ` set (decisions st)
         \<and> map_of (decisions st) ''ops'' = Some (PDict [(''actions'', PList [])]))
   \<and> (\<forall>cfg. map_of store ws = Some cfg \<and> well_typed_event cfg payload \<longrightarrow>
         (\<exists>st. handle_event float_repr store graph_available now ws et payload = Inr st))"
proof -
  let ?run = "handle_event float_repr store graph_available now ws et payload"
  have populated: "workspace_id st = ws \<and> event_type st = et \<and> event_payload st = payload
         \<and> timestamp st = now \<and> errors st = []
         \<and> set stages_without_onboarding \<subseteq> fst ` set (decisions st)
         \<and> map_of (decisions st) ''ops'' = Some (PDict [(''actions'', PList [])])"
    if "?run = Inr st" for st
  proof -
    from that have "run_sequential float_repr store (initial_state now ws et payload) = Inr st"
      by (simp add: handle_event_sequential)
    from run_sequential_result[OF this] have
      after: "after_stages now ws et payload
           (if event_category et payload \<in> onboarding_categories
            then stages_with_onboarding else stages_without_onboarding) st"
      and ops: "map_of (decisions st) ''ops'' = Some (PDict [(''actions'', PList [])])"
      by simp_all
    from after have keys: "map fst (decisions st) =
        (if event_category et payload \<in> onboarding_categories
         then stages_with_onboarding else stages_without_onboarding)"
      by (simp add: after_stages_def)
    have "fst ` set (decisions st) = set (map fst (decisions st))" by simp
    also have "set stages_without_onboarding \<subseteq> \<dots>"
      unfolding keys
      by (auto simp: stages_with_onboarding_def stages_without_onboarding_def)
    finally have "set stages_without_onboarding \<subseteq> fst ` set (decisions st)" .
    with after ops show ?thesis by (simp add: after_stages_def)
  qed
  have missing: "map_of store ws = None \<longrightarrow> ?run = Inl (KeyError ws)"
    by (simp add: handle_event_sequential run_sequential_missing_workspace)
  have schema: "\<forall>e. ensure_workspace_schema store ws = Inl e \<longrightarrow> ?run = Inl e"
    by (simp add: handle_event_sequential run_sequential_schema_raises)
  have routing: "\<forall>d1 e.
         ensure_workspace_schema store ws = Inr d1
         \<and> routing_evaluate store ws
             [(''event'', PDict (classify et payload)), (''schema'', PDict d1)] payload = Inl e
         \<longrightarrow> ?run = Inl e"
    by (auto simp: handle_event_sequential intro: run_sequential_routing_raises)
  have lifecycle: "\<forall>d1 d2 e.
         ensure_workspace_schema store ws = Inr d1
         \<and> routing_evaluate store ws
             [(''event'', PDict (classify et payload)), (''schema'', PDict d1)] payload = Inr d2
         \<and> lifecycle_evaluate float_repr store ws payload = Inl e
         \<longrightarrow> ?run = Inl e"
    by (auto simp: handle_event_sequential intro: run_sequential_lifecycle_raises)
  have hygiene: "\<forall>d1 d2 d3 e.
         ensure_workspace_schema store ws = Inr d1
         \<and> routing_evaluate store ws
             [(''event'', PDict (classify et payload)), (''schema'', PDict d1)] payload = Inr d2
         \<and> lifecycle_evaluate float_repr store ws payload = Inr d3
         \<and> hygiene_evaluate ws payload = Inl e
         \<longrightarrow> ?run = Inl e"
    by (auto simp: handle_event_sequential intro: run_sequential_hygiene_raises)
  have returns: "\<forall>d1 d2 d3 d4.
         ensure_workspace_schema store ws = Inr d1
         \<and> routing_evaluate store ws
             [(''event'', PDict (classify et payload)), (''schema'', PDict d1)] payload = Inr d2
         \<and> lifecycle_evaluate float_repr store ws payload = Inr d3
         \<and> hygiene_evaluate ws payload = Inr d4
         \<longrightarrow> (\<exists>st. ?run = Inr st)"
    by (auto simp: handle_event_sequential intro: run_sequential_agents_return)
  have typed: "\<forall>cfg. map_of store ws = Some cfg \<and> well_typed_event cfg payload \<longrightarrow>
         (\<exists>st. ?run = Inr st)"
    using run_sequential_returns[of store ws _ payload float_repr now et]
    by (simp add: handle_event_sequential)
  from missing schema routing lifecycle hygiene returns populated typed
  show ?thesis by blast
qed

text \<open>
  Propagation on examples, for the workspace \<open>acme\<close> and a \<open>lead_created\<close> event on the
  graph path:
  with the workspace missing from the store, the run raises the config store's KeyError;
  with an \<open>icp_score\<close> that is a list, it raises the TypeError of the routing agent's
  \<open>int(...)\<close>; with a \<open>definition_of_done\<close> threshold that is a number, the
  AttributeError of the lifecycle agent's \<open>rules.get\<close>; with an \<open>email\<close> that is a number,
  the AttributeError of the hygiene agent's \<open>strip\<close>; and with a well-typed payload it
  returns a state with no errors and no alert.
\<close>

theorem handle_event_propagates_witness:
  "handle_event (\<lambda>r. []) [(''globex'', acme_config)] True 0 ''acme'' ''lead_created''
       [(''email'', PStr ''ann@b.com''), (''icp_score'', PInt 85)]
     = Inl (KeyError ''acme'')
   \<and> handle_event (\<lambda>r. []) [(''acme'', acme_config)] True 0 ''acme'' ''lead_created''
       [(''email'', PStr ''ann@b.com''), (''icp_score'', PList [PInt 85])]
     = Inl TypeError
   \<and> handle_event (\<lambda>r. [])
       [(''acme'', acme_config\<lparr>thresholds := [(''definition_of_done'', PInt 1)]\<rparr>)]
       True 0 ''acme'' ''lead_created''
       [(''email'', PStr ''ann@b.com''), (''icp_score'', PInt 85)]
     = Inl AttributeError
   \<and> handle_event (\<lambda>r. []) [(''acme'', acme_config)] True 0 ''acme'' ''lead_created''
       [(''email'', PInt 5), (''icp_score'', PInt 85)]
     = Inl AttributeError
   \<and> (\<exists>st. handle_event (\<lambda>r. []) [(''acme'', acme_config)] True 0 ''acme'' ''lead_created''
              [(''email'', PStr ''ann@b.com''), (''icp_score'', PInt 85)] = Inr st
           \<and> errors st = []
           \<and> map_of (decisions st) ''ops'' = Some (PDict [(''actions'', PList [])]))"
proof -
  let ?lead = "[(''email'', PStr ''ann@b.com''), (''icp_score'', PInt 85)]"
  let ?bad_score = "[(''email'', PStr ''ann@b.com''), (''icp_score'', PList [PInt 85])]"
  let ?bad_email = "[(''email'', PInt 5), (''icp_score'', PInt 85)]"
  let ?acme = "[(''acme'', acme_config)]"
  let ?bad_table =
    "[(''acme'', acme_config\<lparr>thresholds := [(''definition_of_done'', PInt 1)]\<rparr>)]"
  have missing: "map_of [(''globex'', acme_config)] ''acme'' = None" by simp
  have missing_schema:
    "ensure_workspace_schema [(''globex'', acme_config)] ''acme'' = Inl (KeyError ''acme'')"
    by (simp add: ensure_workspace_schema_def load_def)
  have known: "map_of ?acme ''acme'' = Some acme_config" by simp
  have known': "map_of ?bad_table ''acme'' =
      Some (acme_config\<lparr>thresholds := [(''definition_of_done'', PInt 1)]\<rparr>)"
    by simp
  have category: "dict_get (classify ''lead_created'' payload) ''category''
      = PStr ''lead_created_or_updated''" for payload
    using classify_lead_created[of payload] by (simp add: event_category_def)
  have event: "py_or (dict_get [(''event'', PDict (classify ''lead_created'' payload)),
        (''schema'', PDict d)] ''event'') (PDict [])
      = PDict (classify ''lead_created'' payload)" for payload d
    using classify_truthy[of "''lead_created''" payload] by (simp add: py_or_def dict_get_def)
  from handle_event_propagates[of "[(''globex'', acme_config)]" "''acme''" "\<lambda>r. []" True 0
      "''lead_created''" ?lead] missing missing_schema
  have no_workspace: "handle_event (\<lambda>r. []) [(''globex'', acme_config)] True 0 ''acme''
      ''lead_created'' ?lead = Inl (KeyError ''acme'')"
    by blast
  obtain d1 where d1: "ensure_workspace_schema ?acme ''acme'' = Inr d1"
    using ensure_workspace_schema_returns[OF known] ..
  obtain d1' where d1': "ensure_workspace_schema ?bad_table ''acme'' = Inr d1'"
    using ensure_workspace_schema_returns[OF known'] ..
  have "py_int (py_or (dict_get ?bad_score ''icp_score'') (PInt 0)) = Inl TypeError"
    by (simp add: py_or_def dict_get_def)
  then have "routing_evaluate ?acme ''acme''
      [(''event'', PDict (classify ''lead_created'' ?bad_score)), (''schema'', PDict d1)]
      ?bad_score = Inl TypeError"
    by (simp add: routing_evaluate_def load_def event category in_str_set_def)
  with handle_event_propagates[of ?acme "''acme''" "\<lambda>r. []" True 0 "''lead_created''"
      ?bad_score] d1
  have bad_score: "handle_event (\<lambda>r. []) ?acme True 0 ''acme'' ''lead_created'' ?bad_score
      = Inl TypeError"
    by blast
  have score: "py_int (py_or (dict_get ?lead ''icp_score'') (PInt 0)) = Inr 85"
      "py_int (py_or (dict_get ?bad_email ''icp_score'') (PInt 0)) = Inr 85"
    by (simp_all add: py_or_def dict_get_def)
  have stored: "map_of [(''event'', PDict (classify ''lead_created'' payload)),
        (''schema'', PDict d)] ''event'' = Some (PDict (classify ''lead_created'' payload))"
    for payload d
    by simp
  from routing_evaluate_returns[OF known' stored[of ?lead d1'] score(1)]
  obtain d2' where "routing_evaluate ?bad_table ''acme''
      [(''event'', PDict (classify ''lead_created'' ?lead)), (''schema'', PDict d1')] ?lead
      = Inr d2'"
    by blast
  moreover have "lifecycle_evaluate (\<lambda>r. []) ?bad_table ''acme'' ?lead = Inl AttributeError"
    by (simp add: lifecycle_evaluate_def load_def Let_def dict_get_default_def)
  ultimately have bad_table: "handle_event (\<lambda>r. []) ?bad_table True 0 ''acme''
      ''lead_created'' ?lead = Inl AttributeError"
    using handle_event_propagates[of ?bad_table "''acme''" "\<lambda>r. []" True 0
      "''lead_created''" ?lead] d1'
    by blast
  from routing_evaluate_returns[OF known stored[of ?bad_email d1] score(2)]
  obtain d2 where "routing_evaluate ?acme ''acme''
      [(''event'', PDict (classify ''lead_created'' ?bad_email)), (''schema'', PDict d1)]
      ?bad_email = Inr d2"
    by blast
  moreover obtain d3 where "lifecycle_evaluate (\<lambda>r. []) ?acme ''acme'' ?bad_email = Inr d3"
    using lifecycle_evaluate_returns[OF known, of "\<lambda>r. []" ?bad_email]
    by (auto simp: acme_config_def dict_get_default_def field_table_def
        default_definition_of_done_def)
  moreover have "hygiene_evaluate ''acme'' ?bad_email = Inl AttributeError"
    by (simp add: hygiene_evaluate_def stripped_lower_def py_or_def dict_get_def)
  ultimately have bad_email: "handle_event (\<lambda>r. []) ?acme True 0 ''acme'' ''lead_created''
      ?bad_email = Inl AttributeError"
    using handle_event_propagates[of ?acme "''acme''" "\<lambda>r. []" True 0 "''lead_created''"
      ?bad_email] d1
    by blast
  note run = handle_event_propagates[of ?acme "''acme''" "\<lambda>r. []" True 0 "''lead_created''"
      ?lead]
  from run known acme_well_typed(2) obtain st where
    st: "handle_event (\<lambda>r. []) ?acme True 0 ''acme'' ''lead_created'' ?lead = Inr st"
    by blast
  with run have "errors st = []
      \<and> map_of (decisions st) ''ops'' = Some (PDict [(''actions'', PList [])])"
    by blast
  with no_workspace bad_score bad_table bad_email st show ?thesis by blast
qed

text \<open>
  C9, as stated, fails: a run for the event type \<open>deal_stage_changed\<close>, which the
  classifier puts in the category \<open>deal_stage_changed\<close>, does not reach the onboarding
  stage when an earlier stage raises. With no workspace configured the schema stage
  raises KeyError and the run ends there.
\<close>

theorem handle_event_onboarding_counterexample:
  "event_category ''deal_stage_changed'' [(''stage'', PStr ''poc'')] = PStr ''deal_stage_changed''
   \<and> handle_event (\<lambda>r. []) [] False 0 ''acme'' ''deal_stage_changed'' [(''stage'', PStr ''poc'')]
       = Inl (KeyError ''acme'')"
  by (simp add: handle_event_sequential run_sequential_missing_workspace
      classify_deal_stage_changed)

text \<open>
  C9, amended: in a run that completes (no stage raises, as for every configured
  workspace with a well-typed payload), an event classified into the category
  \<open>deal_stage_changed\<close>, \<open>qa_updated\<close> or \<open>go_live\<close> executes the onboarding stage
  after hygiene and before reporting, and an event of any other category executes no
  onboarding stage. A completed run for the event type \<open>lead_created\<close> has no
  \<open>onboarding\<close> entry in \<open>decisions\<close>, and a completed run for the event type
  \<open>deal_stage_changed\<close> visits onboarding before reporting.
\<close>

theorem handle_event_onboarding_branch:
  "(\<forall>st. handle_event float_repr store graph_available now ws et payload = Inr st \<longrightarrow>
         (event_category et payload \<in> onboarding_categories \<longrightarrow>
            map fst (decisions st) = stages_with_onboarding)
       \<and> (event_category et payload \<notin> onboarding_categories \<longrightarrow>
            map fst (decisions st) = stages_without_onboarding
            \<and> map_of (decisions st) ''onboarding'' = None))
   \<and> (\<forall>st. handle_event float_repr store graph_available now ws ''lead_created'' payload
              = Inr st \<longrightarrow>
         map_of (decisions st) ''onboarding'' = None)
   \<and> (\<forall>st. handle_event float_repr store graph_available now ws ''deal_stage_changed'' payload
              = Inr st \<longrightarrow>
         map fst (decisions st) = stages_with_onboarding)
   \<and> (\<forall>cfg. map_of store ws = Some cfg \<and> well_typed_event cfg payload \<longrightarrow>
         (\<exists>st. handle_event float_repr store graph_available now ws et payload = Inr st))"
proof -
  have keys: "map fst (decisions st) =
      (if event_category et' payload \<in> onboarding_categories
       then stages_with_onboarding else stages_without_onboarding)"
    if "handle_event float_repr store graph_available now ws et' payload = Inr st" for st et'
  proof -
    from that have "run_sequential float_repr store (initial_state now ws et' payload) = Inr st"
      by (simp add: handle_event_sequential)
    from run_sequential_result[OF this] show ?thesis by (simp add: after_stages_def)
  qed
  have absent: "map_of (decisions st) ''onboarding'' = None"
    if "map fst (decisions st) = stages_without_onboarding" for st :: GTMState
  proof -
    from that have "''onboarding'' \<notin> fst ` set (decisions st)"
      by (simp add: stages_without_onboarding_def flip: set_map)
    then show ?thesis by (simp add: map_of_eq_None_iff)
  qed
  have lead: "event_category ''lead_created'' payload \<notin> onboarding_categories"
    by (simp add: classify_lead_created onboarding_categories_def)
  have deal: "event_category ''deal_stage_changed'' payload \<in> onboarding_categories"
    by (simp add: classify_deal_stage_changed onboarding_categories_def)
  show ?thesis
    using keys absent lead deal
      run_sequential_returns[of store ws _ payload float_repr now et]
    by (auto simp: handle_event_sequential)
qed

theorem handle_event_onboarding_branch_witness:
  "\<exists>st. handle_event (\<lambda>r. []) [(''acme'', acme_config)] False 0 ''acme'' ''deal_stage_changed''
            [(''stage'', PStr ''poc''), (''deal_id'', PInt 7)] = Inr st
        \<and> map fst (decisions st) =
            [''event'', ''schema'', ''routing'', ''lifecycle'', ''hygiene'', ''onboarding'',
             ''reporting'', ''ops'']"
proof -
  have known: "map_of [(''acme'', acme_config)] ''acme'' = Some acme_config" by simp
  note branch = handle_event_onboarding_branch[of "\<lambda>r. []" "[(''acme'', acme_config)]" False 0
      "''acme''" "''deal_stage_changed''" "[(''stage'', PStr ''poc''), (''deal_id'', PInt 7)]"]
  from branch known acme_well_typed(1) obtain st where
    st: "handle_event (\<lambda>r. []) [(''acme'', acme_config)] False 0 ''acme'' ''deal_stage_changed''
            [(''stage'', PStr ''poc''), (''deal_id'', PInt 7)] = Inr st"
    by blast
  with branch have "map fst (decisions st) = stages_with_onboarding" by blast
  with st show ?thesis by (auto simp: stages_with_onboarding_def)
qed

end
